theory Spec2Isabelle
  imports
    Complex_Main
    "HOL-Library.Char_ord"
    "HOL-Library.List_Lexorder"
    "HOL-Library.Multiset"
    "HOL-Library.Product_Lexorder"
begin

section \<open>JavaScript values\<close>

text \<open>
  The dashboard client receives JSON and renders it.  A JSON scalar is a \<open>jsval\<close>;
  \<open>Undefined\<close> is what reading a missing property gives.  Numbers are idealised as
  reals: the rounding of IEEE doubles is not modelled, and JSON cannot carry NaN or
  an infinity.  Strings are byte strings; the keys, tickers and labels of the
  application are ASCII.
\<close>

datatype jsval = Undefined | Null | Bool bool | Number real | Str string

text \<open>JavaScript's truthiness, as used by \<open>value ? a : b\<close>, \<open>!value\<close> and \<open>&&\<close>.\<close>

fun truthy :: "jsval \<Rightarrow> bool" where
  "truthy Undefined = False"
| "truthy Null = False"
| "truthy (Bool b) = b"
| "truthy (Number n) = (n \<noteq> 0)"
| "truthy (Str s) = (s \<noteq> [])"

text \<open>
  An object is the list of its own properties in the order \<open>Object.keys\<close> enumerates
  them.  Reading a property that is not there gives \<open>undefined\<close>.
\<close>

type_synonym jsobj = "(string \<times> jsval) list"

definition Object_keys :: "(string \<times> 'a) list \<Rightarrow> string list" where
  "Object_keys obj = map fst obj"

definition get_prop :: "jsobj \<Rightarrow> string \<Rightarrow> jsval" where
  "get_prop obj k = (case map_of obj k of None \<Rightarrow> Undefined | Some v \<Rightarrow> v)"

datatype js_error = TypeError

text \<open>
  A division can leave the finite numbers: \<open>x / 0\<close> is \<open>Infinity\<close>, \<open>-Infinity\<close> or
  \<open>NaN\<close>.  Which of the three depends on the sign of the zero, which a real does not
  have, so the model has one value for all of them.
\<close>

datatype jsnum = Finite real | NonFinite

fun js_divide :: "real \<Rightarrow> real \<Rightarrow> jsnum" where
  "js_divide a b = (if b = 0 then NonFinite else Finite (a / b))"

fun js_times :: "jsnum \<Rightarrow> real \<Rightarrow> jsnum" where
  "js_times (Finite a) b = Finite (a * b)"
| "js_times NonFinite b = NonFinite"

text \<open>
  The formatting functions of the host (\<open>toLocaleString\<close>,
  \<open>new Date(d).toLocaleDateString()\<close>, \<open>toFixed(2)\<close>) depend on the locale of the browser;
  they are parameters of the model.
\<close>

record host =
  toLocaleString :: "jsval \<Rightarrow> string"
  toLocaleDateString :: "string \<Rightarrow> string"
  toFixed2 :: "jsnum \<Rightarrow> string"

text \<open>\<open>xs.map(f)\<close> where \<open>f\<close> may throw: the first exception ends the whole map.\<close>

fun map_throwing :: "('a \<Rightarrow> js_error + 'b) \<Rightarrow> 'a list \<Rightarrow> js_error + 'b list" where
  "map_throwing f [] = Inr []"
| "map_throwing f (x # xs) =
     (case f x of
        Inl e \<Rightarrow> Inl e
      | Inr y \<Rightarrow> (case map_throwing f xs of Inl e \<Rightarrow> Inl e | Inr ys \<Rightarrow> Inr (y # ys)))"

section \<open>StatCard\<close>

text \<open>
  \<^verbatim>\<open>{value ? `${prefix}${typeof value === 'number' ? value.toLocaleString() : value}` : '-'}\<close>
  The component is the same text in both variants of the client.  A template literal
  turns a string into itself and the other scalars into their names.
\<close>

fun template_string :: "host \<Rightarrow> jsval \<Rightarrow> string" where
  "template_string H (Str s) = s"
| "template_string H (Bool b) = (if b then ''true'' else ''false'')"
| "template_string H Null = ''null''"
| "template_string H Undefined = ''undefined''"
| "template_string H (Number n) = toLocaleString H (Number n)"

record stat_card =
  stat_label :: string
  stat_value :: string

definition StatCard :: "host \<Rightarrow> string \<Rightarrow> jsval \<Rightarrow> string \<Rightarrow> stat_card" where
  "StatCard H label v prefix =
     \<lparr> stat_label = label,
       stat_value = (if truthy v then prefix @ template_string H v else ''-'') \<rparr>"

section \<open>FinancialTable\<close>

text \<open>
  A financial statement is an object from row names to objects from date keys to
  values: \<^verbatim>\<open>{ "row_name": { "date": val, "date2": val } }\<close>.  A value is a number or
  \<open>null\<close> (\<open>None\<close>); a date that a row does not have reads as \<open>undefined\<close>.
\<close>

type_synonym statement_row = "(string \<times> real option) list"

type_synonym statement = "(string \<times> statement_row) list"

definition cell_value :: "statement_row \<Rightarrow> string \<Rightarrow> jsval" where
  "cell_value r date =
     (case map_of r date of
        None \<Rightarrow> Undefined
      | Some None \<Rightarrow> Null
      | Some (Some x) \<Rightarrow> Number x)"

record th =
  th_key :: string
  th_text :: string

record td =
  td_key :: string
  td_text :: string

record tr =
  tr_key :: string
  tr_name :: string
  tr_cells :: "td list"

record table =
  caption :: string
  ths :: "th list"
  trs :: "tr list"

datatype rendered = NoDataAvailable | Table table

text \<open>\<^verbatim>\<open>{data[row][date] ? data[row][date].toLocaleString() : '-'}\<close>\<close>

definition cell_text :: "host \<Rightarrow> jsval \<Rightarrow> string" where
  "cell_text H v = (if truthy v then toLocaleString H v else ''-'')"

text \<open>
  One \<^verbatim>\<open><tr>\<close> of the body.  \<open>data[row]\<close> is read by key; were it undefined, reading
  \<open>data[row][date]\<close> would throw.
\<close>

definition body_row :: "host \<Rightarrow> statement \<Rightarrow> string list \<Rightarrow> string \<Rightarrow> js_error + tr" where
  "body_row H data availableDates row =
     (case map_of data row of
        None \<Rightarrow> (if availableDates = [] then
                   Inr \<lparr> tr_key = row, tr_name = row, tr_cells = [] \<rparr>
                 else Inl TypeError)
      | Some r \<Rightarrow>
          Inr \<lparr> tr_key = row, tr_name = row,
                tr_cells = map (\<lambda>date. \<lparr> td_key = row @ ''-'' @ date,
                                           td_text = cell_text H (cell_value r date) \<rparr>)
                               availableDates \<rparr>)"

text \<open>
  \<^verbatim>\<open>
  if (!data || Object.keys(data).length === 0) return <div ...>No Data Available</div>;
  const rows = Object.keys(data);
  const firstRow = data[rows[0]];
  const availableDates = Object.keys(firstRow).sort().reverse();
  \<close>
  \<open>sort()\<close> without a comparator orders strings by their code units, which on ASCII
  keys is the lexicographic order of \<open>string\<close>.
\<close>

definition availableDates :: "statement_row \<Rightarrow> string list" where
  "availableDates firstRow = rev (sort (Object_keys firstRow))"

definition FinancialTable :: "host \<Rightarrow> string \<Rightarrow> statement option \<Rightarrow> js_error + rendered" where
  "FinancialTable H title data =
     (case data of
        None \<Rightarrow> Inr NoDataAvailable
      | Some d \<Rightarrow>
          (case Object_keys d of
             [] \<Rightarrow> Inr NoDataAvailable
           | r0 # rest \<Rightarrow>
               (case map_of d r0 of
                  None \<Rightarrow> Inl TypeError
                | Some firstRow \<Rightarrow>
                    (case map_throwing (body_row H d (availableDates firstRow)) (r0 # rest) of
                       Inl e \<Rightarrow> Inl e
                     | Inr body \<Rightarrow>
                         Inr (Table
                           \<lparr> caption = title @ '' Breakdown'',
                             ths = map (\<lambda>date. \<lparr> th_key = date,
                                                   th_text = toLocaleDateString H date \<rparr>)
                                       (availableDates firstRow),
                             trs = body \<rparr>)))))"

text \<open>
  The distinct dates found across all rows of a statement, and the closed form of the
  body row that \<open>body_row\<close> computes for a key of the statement.
\<close>

definition statement_dates :: "statement \<Rightarrow> string list" where
  "statement_dates d = remdups (concat (map (\<lambda>e. Object_keys (snd e)) d))"

definition table_row :: "host \<Rightarrow> statement_row \<Rightarrow> string list \<Rightarrow> string \<Rightarrow> tr" where
  "table_row H r dates row =
     \<lparr> tr_key = row, tr_name = row,
       tr_cells = map (\<lambda>date. \<lparr> td_key = row @ ''-'' @ date,
                                  td_text = cell_text H (cell_value r date) \<rparr>) dates \<rparr>"

text \<open>
  The header of a column is \<^verbatim>\<open>new Date(date).toLocaleDateString()\<close>: the key is read as a
  date.  \<open>key_date\<close> is that reading for the two forms of key modelled here: the ISO form,
  year-month-day in four, two and two digits with anything after it (a time), and the
  form month/day/year.  A date is its year, month and day, compared in that order.
\<close>

type_synonym ymd = "nat \<times> nat \<times> nat"

definition is_digit :: "char \<Rightarrow> bool" where
  "is_digit c = (CHR ''0'' \<le> c \<and> c \<le> CHR ''9'')"

definition digit_value :: "char \<Rightarrow> nat" where
  "digit_value c = of_char c - 48"

fun digits_value :: "string \<Rightarrow> nat" where
  "digits_value [] = 0"
| "digits_value (c # cs) = digit_value c * 10 ^ length cs + digits_value cs"

definition is_iso_key :: "string \<Rightarrow> bool" where
  "is_iso_key k =
     (10 \<le> length k
      \<and> list_all is_digit (take 4 k) \<and> k ! 4 = CHR ''-''
      \<and> list_all is_digit (take 2 (drop 5 k)) \<and> k ! 7 = CHR ''-''
      \<and> list_all is_digit (take 2 (drop 8 k)))"

definition iso_date :: "string \<Rightarrow> ymd" where
  "iso_date k =
     (digits_value (take 4 k), digits_value (take 2 (drop 5 k)), digits_value (take 2 (drop 8 k)))"

fun split_on :: "char \<Rightarrow> string \<Rightarrow> string list" where
  "split_on c [] = [[]]"
| "split_on c (x # xs) =
     (if x = c then [] # split_on c xs
      else (case split_on c xs of [] \<Rightarrow> [[x]] | p # ps \<Rightarrow> (x # p) # ps))"

definition is_number :: "string \<Rightarrow> bool" where
  "is_number ds = (ds \<noteq> [] \<and> list_all is_digit ds)"

definition slash_date :: "string \<Rightarrow> ymd option" where
  "slash_date k =
     (case split_on (CHR ''/'') k of
        [m, d, y] \<Rightarrow>
          if is_number m \<and> is_number d \<and> is_number y
          then Some (digits_value y, digits_value m, digits_value d) else None
      | _ \<Rightarrow> None)"

definition key_date :: "string \<Rightarrow> ymd option" where
  "key_date k = (if is_iso_key k then Some (iso_date k) else slash_date k)"

text \<open>
  A host for concrete evaluations: it prints every number as \<open>#\<close> and a date as its
  key.
\<close>

definition plain_host :: host where
  "plain_host =
     \<lparr> toLocaleString = (\<lambda>v. ''#''),
       toLocaleDateString = (\<lambda>d. d),
       toFixed2 = (\<lambda>n. ''#.##'') \<rparr>"

section \<open>Price change\<close>

text \<open>
  A point of the history, \<^verbatim>\<open>{date, open, high, low, close, volume}\<close>.  The field \<open>open\<close>
  is \<open>open_price\<close> here and the field \<open>value\<close> of a stock is \<open>value'\<close>, as \<open>open\<close> and
  \<open>value\<close> are keywords of Isabelle.
\<close>

record history_point =
  date :: string
  open_price :: real
  high :: real
  low :: real
  close :: real
  volume :: real

text \<open>
  The response of \<^verbatim>\<open>GET /api/stock/{symbol}?period={p}\<close>; \<open>info\<close> is \<open>None\<close> when the
  property is missing or null.
\<close>

record stock_data =
  symbol :: string
  info :: "jsobj option"
  history :: "history_point list"

record price_change =
  change :: real
  percent :: jsnum

text \<open>What \<open>getPriceChange\<close> returns: \<open>null\<close>, the number \<open>0\<close> or an object.\<close>

datatype price_change_result = PCNull | PCZero | PCObject price_change

text \<open>
  The part both variants share:
  \<^verbatim>\<open>
  const first = stockData.history[0].close;
  const last = stockData.history[stockData.history.length - 1].close;
  const change = last - first;
  const percent = (change / first) * 100;
  return { change, percent };
  \<close>
  It is reached only with two or more history points, so both indices are in range.
\<close>

definition period_change :: "history_point list \<Rightarrow> price_change" where
  "period_change h =
     (let first = close (h ! 0);
          last = close (h ! (length h - 1));
          change = last - first;
          percent = js_times (js_divide change first) 100
      in \<lparr> change = change, percent = percent \<rparr>)"

text \<open>
  The first variant (frontend/src/App.js):
  \<^verbatim>\<open>
  if (!stockData || !stockData.info.currentPrice || !stockData.info.dayHigh) return null;
  if (stockData.history.length < 2) return 0;
  \<close>
  Reading \<open>currentPrice\<close> of a missing \<open>info\<close> throws.
\<close>

definition getPriceChange1 :: "stock_data option \<Rightarrow> js_error + price_change_result" where
  "getPriceChange1 stockData =
     (case stockData of
        None \<Rightarrow> Inr PCNull
      | Some sd \<Rightarrow>
          (case info sd of
             None \<Rightarrow> Inl TypeError
           | Some i \<Rightarrow>
               if \<not> truthy (get_prop i ''currentPrice'') \<or> \<not> truthy (get_prop i ''dayHigh'')
               then Inr PCNull
               else if length (history sd) < 2 then Inr PCZero
               else Inr (PCObject (period_change (history sd)))))"

text \<open>
  The second variant:
  \<^verbatim>\<open>
  if (!stockData || !stockData.info || stockData.history.length < 2) return null;
  \<close>
\<close>

definition getPriceChange2 :: "stock_data option \<Rightarrow> js_error + price_change_result" where
  "getPriceChange2 stockData =
     (case stockData of
        None \<Rightarrow> Inr PCNull
      | Some sd \<Rightarrow>
          (case info sd of
             None \<Rightarrow> Inr PCNull
           | Some i \<Rightarrow>
               if length (history sd) < 2 then Inr PCNull
               else Inr (PCObject (period_change (history sd)))))"

text \<open>
  The badge, the same JSX in both variants:
  \<^verbatim>\<open>
  {priceChange && (
    <div className={`price-change ${priceChange.change >= 0 ? 'positive' : 'negative'}`}>
      {priceChange.change >= 0 ? '+' : ''}{priceChange.change.toFixed(2)} ({priceChange.percent.toFixed(2)}%)
      <span ...>({period})</span>
    </div>)}
  \<close>
  React renders nothing for \<open>null\<close> and the text \<open>0\<close> for the number \<open>0\<close>.
\<close>

record badge =
  className :: string
  badge_text :: string
  badge_period :: string

datatype badge_render = NoBadge | ZeroText | Badge badge

fun priceBadge :: "host \<Rightarrow> string \<Rightarrow> price_change_result \<Rightarrow> badge_render" where
  "priceBadge H period PCNull = NoBadge"
| "priceBadge H period PCZero = ZeroText"
| "priceBadge H period (PCObject pc) =
     Badge \<lparr> className = ''price-change '' @ (if change pc \<ge> 0 then ''positive'' else ''negative''),
             badge_text = (if change pc \<ge> 0 then ''+'' else [])
                          @ toFixed2 H (Finite (change pc))
                          @ '' ('' @ toFixed2 H (percent pc) @ ''%)'',
             badge_period = ''('' @ period @ '')'' \<rparr>"

text \<open>
  The last card of the statistics grid, in both variants:
  \<^verbatim>\<open><StatCard label="Volume" value={stockData.history[stockData.history.length - 1]?.volume} />\<close>
  Reading past the end of an empty history gives \<open>undefined\<close>, and so does \<open>?.volume\<close>.
\<close>

definition volumeCard :: "host \<Rightarrow> stock_data \<Rightarrow> stat_card" where
  "volumeCard H sd =
     StatCard H ''Volume''
       (if history sd = [] then Undefined
        else Number (volume (history sd ! (length (history sd) - 1))))
       []"

section \<open>Strings\<close>

text \<open>
  \<open>toUpperCase\<close> and \<open>toLowerCase\<close> on ASCII text: the twenty-six letters change case,
  every other character stays.
\<close>

definition lower_char :: "char \<Rightarrow> char" where
  "lower_char c =
     (if CHR ''A'' \<le> c \<and> c \<le> CHR ''Z'' then char_of (of_char c + (32::nat)) else c)"

definition upper_char :: "char \<Rightarrow> char" where
  "upper_char c =
     (if CHR ''a'' \<le> c \<and> c \<le> CHR ''z'' then char_of (of_char c - (32::nat)) else c)"

definition toLowerCase :: "string \<Rightarrow> string" where
  "toLowerCase s = map lower_char s"

definition toUpperCase :: "string \<Rightarrow> string" where
  "toUpperCase s = map upper_char s"

text \<open>\<open>hay.includes(needle)\<close>: the needle occurs in the hay as a contiguous run.\<close>

fun starts_with :: "string \<Rightarrow> string \<Rightarrow> bool" where
  "starts_with hay [] = True"
| "starts_with [] (n # ns) = False"
| "starts_with (h # hs) (n # ns) = (h = n \<and> starts_with hs ns)"

fun includes_str :: "string \<Rightarrow> string \<Rightarrow> bool" where
  "includes_str [] needle = (needle = [])"
| "includes_str (h # hs) needle = (starts_with (h # hs) needle \<or> includes_str hs needle)"

section \<open>The App component (second variant)\<close>

record stock =
  label :: string
  value' :: string

text \<open>
  React compares state and effect dependencies with \<open>Object.is\<close>, which on objects is
  identity.  A reference is the address of an object together with its contents; the
  stock objects are never mutated.
\<close>

type_synonym 'a ref = "nat \<times> 'a"

definition deref :: "'a ref \<Rightarrow> 'a" where
  "deref r = snd r"

text \<open>The eight \<open>useState\<close> cells of \<open>App\<close>, with their initial values.\<close>

record app_state =
  stocks :: "stock ref list"
  selectedStock :: "stock ref option"
  customStock :: string
  stockData :: "stock_data option"
  loading :: bool
  searchTerm :: string
  period :: string
  showFinancials :: bool

definition initial_state :: app_state where
  "initial_state =
     \<lparr> stocks = [], selectedStock = None, customStock = [], stockData = None,
       loading = False, searchTerm = [], period = ''1y'', showFinancials = False \<rparr>"

text \<open>
  \<^verbatim>\<open>
  const filteredStocks = stocks.filter(s =>
      s.label.toLowerCase().includes(searchTerm.toLowerCase()) ||
      s.value.toLowerCase().includes(searchTerm.toLowerCase()));
  \<close>
  The same text in both variants.
\<close>

definition filteredStocks :: "stock ref list \<Rightarrow> string \<Rightarrow> stock ref list" where
  "filteredStocks sts term =
     filter (\<lambda>s. includes_str (toLowerCase (label (deref s))) (toLowerCase term)
                \<or> includes_str (toLowerCase (value' (deref s))) (toLowerCase term)) sts"

text \<open>
  \<^verbatim>\<open>
  const handleCustomSubmit = (e) => {
      e.preventDefault();
      if (customStock) {
          const symbol = customStock.toUpperCase();
          setSelectedStock({ label: symbol, value: symbol });
          setSearchTerm('');
      }
  };
  \<close>
  The object literal is allocated at a fresh address \<open>a\<close>.
\<close>

definition handleCustomSubmit :: "nat \<Rightarrow> app_state \<Rightarrow> app_state" where
  "handleCustomSubmit a s =
     (if customStock s \<noteq> [] then
        (let symbol = toUpperCase (customStock s)
         in s\<lparr> selectedStock := Some (a, \<lparr> label = symbol, value' = symbol \<rparr>),
               searchTerm := [] \<rparr>)
      else s)"

text \<open>The requests the client sends, and their URLs.\<close>

datatype request = GetStocks | GetStock string string

fun url :: "request \<Rightarrow> string" where
  "url GetStocks = ''http://127.0.0.1:5000/api/stocks''"
| "url (GetStock v p) = ''http://127.0.0.1:5000/api/stock/'' @ v @ ''?period='' @ p"

text \<open>
  What can happen to the mounted component: a response or failure of a request, and
  the handlers bound in the JSX.
\<close>

datatype event =
    StocksResponse "stock list"
  | StocksError
  | StockResponse stock_data
  | StockError
  | CustomInput string
  | CustomSubmit
  | SearchInput string
  | TickerClick nat
  | PeriodClick string
  | FinancialsClick

definition periods :: "string list" where
  "periods = [''1mo'', ''3mo'', ''6mo'', ''1y'', ''5y'', ''max'']"

text \<open>
  The state updates of each callback.  The array of a response is parsed into fresh
  objects at the addresses \<open>a, a + 1, ...\<close>.
  \<^verbatim>\<open>
  .then(res => { setStocks(res.data);
                 if (res.data.length > 0) { setSelectedStock(res.data[0]); } })
  .then(res => { setStockData(res.data); setLoading(false); })
  .catch(err => { console.error("Error fetching stock data:", err); setLoading(false); })
  onChange={(e) => setCustomStock(e.target.value)}
  onChange={(e) => setSearchTerm(e.target.value)}
  onClick={() => setSelectedStock(stock)}         (stock of filteredStocks)
  onClick={() => setPeriod(p)}
  onClick={() => setShowFinancials(!showFinancials)}
  \<close>
\<close>

definition allocate :: "nat \<Rightarrow> 'a list \<Rightarrow> 'a ref list" where
  "allocate a xs = zip [a ..< a + length xs] xs"

fun handler :: "nat \<Rightarrow> event \<Rightarrow> app_state \<Rightarrow> app_state" where
  "handler a (StocksResponse data) s =
     (let res = allocate a data;
          s1 = s\<lparr> stocks := res \<rparr>
      in if length res > 0 then s1\<lparr> selectedStock := Some (res ! 0) \<rparr> else s1)"
| "handler a StocksError s = s"
| "handler a (StockResponse data) s = s\<lparr> stockData := Some data, loading := False \<rparr>"
| "handler a StockError s = s\<lparr> loading := False \<rparr>"
| "handler a (CustomInput text) s = s\<lparr> customStock := text \<rparr>"
| "handler a CustomSubmit s = handleCustomSubmit a s"
| "handler a (SearchInput text) s = s\<lparr> searchTerm := text \<rparr>"
| "handler a (TickerClick i) s =
     (let shown = filteredStocks (stocks s) (searchTerm s)
      in if i < length shown then s\<lparr> selectedStock := Some (shown ! i) \<rparr> else s)"
| "handler a (PeriodClick p) s = s\<lparr> period := p \<rparr>"
| "handler a FinancialsClick s = s\<lparr> showFinancials := \<not> showFinancials s \<rparr>"

text \<open>
  \<^verbatim>\<open>
  useEffect(() => {
      if (!selectedStock) return;
      setLoading(true);
      setShowFinancials(false); // Reset financials view on change
      axios.get(`http://127.0.0.1:5000/api/stock/${selectedStock.value}?period=${period}`)
      ...
  }, [selectedStock, period]);
  \<close>
  The effect returns the new state and the requests it sent.
\<close>

definition fetchEffect :: "app_state \<Rightarrow> app_state \<times> request list" where
  "fetchEffect s =
     (case selectedStock s of
        None \<Rightarrow> (s, [])
      | Some st \<Rightarrow>
          (s\<lparr> loading := True, showFinancials := False \<rparr>,
           [GetStock (value' (deref st)) (period s)]))"

text \<open>
  One event: the callback updates the state, React renders, and the effect runs when
  one of its dependencies \<open>[selectedStock, period]\<close> is not the one of the previous
  render.
\<close>

definition deps_changed :: "app_state \<Rightarrow> app_state \<Rightarrow> bool" where
  "deps_changed s s' = (selectedStock s' \<noteq> selectedStock s \<or> period s' \<noteq> period s)"

definition step :: "nat \<Rightarrow> event \<Rightarrow> app_state \<Rightarrow> app_state \<times> request list" where
  "step a ev s =
     (let s1 = handler a ev s
      in if deps_changed s s1 then fetchEffect s1 else (s1, []))"

text \<open>
  The client: the component's state, the next free address, and the numbers of
  requests in flight.  On mount the first effect sends \<^verbatim>\<open>GET /api/stocks\<close>; the second
  effect runs too and returns at once, as no stock is selected.
\<close>

record client =
  app :: app_state
  next_address :: nat
  stocks_in_flight :: nat
  stock_in_flight :: nat

definition mounted :: client where
  "mounted = \<lparr> app = initial_state, next_address = 0, stocks_in_flight = 1, stock_in_flight = 0 \<rparr>"

text \<open>
  An event can happen when its request is in flight, or when the element that carries
  its handler is rendered: the sidebar always is, the period buttons and the
  financials button only in the branch \<open>stockData ? (...)\<close> of the main content.
\<close>

fun enabled :: "event \<Rightarrow> client \<Rightarrow> bool" where
  "enabled (StocksResponse data) c = (stocks_in_flight c > 0)"
| "enabled StocksError c = (stocks_in_flight c > 0)"
| "enabled (StockResponse data) c = (stock_in_flight c > 0)"
| "enabled StockError c = (stock_in_flight c > 0)"
| "enabled (CustomInput text) c = True"
| "enabled CustomSubmit c = True"
| "enabled (SearchInput text) c = True"
| "enabled (TickerClick i) c = (i < length (filteredStocks (stocks (app c)) (searchTerm (app c))))"
| "enabled (PeriodClick p) c = (p \<in> set periods \<and> stockData (app c) \<noteq> None)"
| "enabled FinancialsClick c = (stockData (app c) \<noteq> None)"

fun answered :: "event \<Rightarrow> nat \<times> nat" where
  "answered (StocksResponse data) = (1, 0)"
| "answered StocksError = (1, 0)"
| "answered (StockResponse data) = (0, 1)"
| "answered StockError = (0, 1)"
| "answered ev = (0, 0)"

fun allocated :: "event \<Rightarrow> nat" where
  "allocated (StocksResponse data) = length data"
| "allocated CustomSubmit = 1"
| "allocated ev = 0"

definition client_step :: "event \<Rightarrow> client \<Rightarrow> client \<times> request list" where
  "client_step ev c =
     (let (s', sent) = step (next_address c) ev (app c)
      in (\<lparr> app = s',
            next_address = next_address c + allocated ev,
            stocks_in_flight = stocks_in_flight c - fst (answered ev),
            stock_in_flight = stock_in_flight c - snd (answered ev) + length sent \<rparr>,
          sent))"

inductive reachable :: "client \<Rightarrow> bool" where
  reachable_mounted: "reachable mounted"
| reachable_step: "reachable c \<Longrightarrow> enabled ev c \<Longrightarrow> reachable (fst (client_step ev c))"

text \<open>
  What it is for a text to contain a search term case-insensitively, said without the
  conversions the component uses: at some offset every character of the term is the
  character of the text there, up to the case of a letter.
\<close>

definition is_upper :: "char \<Rightarrow> bool" where
  "is_upper c = (CHR ''A'' \<le> c \<and> c \<le> CHR ''Z'')"

definition same_ignoring_case :: "char \<Rightarrow> char \<Rightarrow> bool" where
  "same_ignoring_case c d =
     (c = d \<or> (is_upper c \<and> of_char d = of_char c + (32::nat))
            \<or> (is_upper d \<and> of_char c = of_char d + (32::nat)))"

definition contains_ignoring_case :: "string \<Rightarrow> string \<Rightarrow> bool" where
  "contains_ignoring_case hay needle =
     (\<exists>k. k + length needle \<le> length hay
          \<and> (\<forall>i<length needle. same_ignoring_case (hay ! (k + i)) (needle ! i)))"

section \<open>Auxiliary facts\<close>

lemma map_throwing_total:
  "(\<And>x. x \<in> set xs \<Longrightarrow> f x = Inr (g x)) \<Longrightarrow> map_throwing f xs = Inr (map g xs)"
  by (induction xs) auto

lemma key_lookup:
  assumes "row \<in> set (Object_keys d)"
  shows "\<exists>r. map_of d row = Some r"
  using assms by (induction d) (auto simp: Object_keys_def)

lemma body_row_of_key:
  assumes "row \<in> set (Object_keys d)"
  shows "body_row H d dates row = Inr (table_row H (the (map_of d row)) dates row)"
proof -
  from key_lookup [OF assms] obtain r where "map_of d row = Some r" ..
  then show ?thesis by (simp add: body_row_def table_row_def)
qed

text \<open>A statement with at least one row is rendered as a table, and never throws.\<close>

lemma FinancialTable_nonempty:
  assumes "d \<noteq> []"
  shows "FinancialTable H title (Some d) =
           Inr (Table \<lparr> caption = title @ '' Breakdown'',
                        ths = map (\<lambda>date. \<lparr> th_key = date, th_text = toLocaleDateString H date \<rparr>)
                                  (availableDates (snd (hd d))),
                        trs = map (\<lambda>row. table_row H (the (map_of d row))
                                            (availableDates (snd (hd d))) row)
                                  (Object_keys d) \<rparr>)"
proof -
  obtain e es where d: "d = e # es" using assms by (cases d) auto
  have keys: "Object_keys d = fst e # map fst es" by (simp add: d Object_keys_def)
  have first: "map_of d (fst e) = Some (snd e)" by (simp add: d)
  have rows: "map_throwing (body_row H d (availableDates (snd e))) (fst e # map fst es)
                = Inr (map (\<lambda>row. table_row H (the (map_of d row)) (availableDates (snd e)) row)
                           (fst e # map fst es))"
    by (rule map_throwing_total) (simp add: body_row_of_key keys)
  have hd: "hd d = e" by (simp add: d)
  show ?thesis
    unfolding FinancialTable_def
    by (simp add: keys first rows hd del: map_throwing.simps)
qed

lemma availableDates_mset: "mset (availableDates r) = mset (Object_keys r)"
  by (simp add: availableDates_def)

lemma availableDates_descending: "sorted_wrt (\<lambda>a b. b \<le> a) (availableDates r)"
  by (simp add: availableDates_def sorted_wrt_rev)

lemma statement_dates_uniform:
  assumes "\<forall>e\<in>set d. set (Object_keys (snd e)) = K" and "d \<noteq> []"
  shows "set (statement_dates d) = K"
  using assms by (cases d) (auto simp: statement_dates_def)

section \<open>The financial statement table\<close>

text \<open>
  Claim C1, as the code has it.  A non-empty statement is rendered as a table with one
  body row per line-item key, in the order of \<open>Object.keys\<close>, and one date column per
  date key of the first row: the columns are a permutation of the first row's keys.
  They are all the dates of the statement when every row has the dates of the first
  row, which is the consistency the component's comment assumes.
\<close>

theorem FinancialTable_rows_and_columns:
  assumes "d \<noteq> []"
  shows "\<exists>t. FinancialTable H title (Some d) = Inr (Table t)
           \<and> map tr_name (trs t) = Object_keys d
           \<and> mset (map th_key (ths t)) = mset (Object_keys (snd (hd d)))
           \<and> ((\<forall>e\<in>set d. set (Object_keys (snd e)) = set (Object_keys (snd (hd d))))
                \<longrightarrow> set (map th_key (ths t)) = set (statement_dates d))"
proof -
  let ?dates = "availableDates (snd (hd d))"
  let ?t = "\<lparr> caption = title @ '' Breakdown'',
              ths = map (\<lambda>date. \<lparr> th_key = date, th_text = toLocaleDateString H date \<rparr>) ?dates,
              trs = map (\<lambda>row. table_row H (the (map_of d row)) ?dates row) (Object_keys d) \<rparr>"
  have t: "FinancialTable H title (Some d) = Inr (Table ?t)"
    by (rule FinancialTable_nonempty [OF assms])
  have rows: "map tr_name (trs ?t) = Object_keys d"
    by (simp add: table_row_def comp_def)
  have cols: "map th_key (ths ?t) = ?dates"
    by (simp add: comp_def)
  have perm: "mset (map th_key (ths ?t)) = mset (Object_keys (snd (hd d)))"
    unfolding cols by (rule availableDates_mset)
  have all: "(\<forall>e\<in>set d. set (Object_keys (snd e)) = set (Object_keys (snd (hd d))))
               \<longrightarrow> set (map th_key (ths ?t)) = set (statement_dates d)"
  proof
    assume u: "\<forall>e\<in>set d. set (Object_keys (snd e)) = set (Object_keys (snd (hd d)))"
    have "set (map th_key (ths ?t)) = set (Object_keys (snd (hd d)))"
      using perm by (rule mset_eq_setD)
    also have "\<dots> = set (statement_dates d)"
      using statement_dates_uniform [OF u assms] by simp
    finally show "set (map th_key (ths ?t)) = set (statement_dates d)" .
  qed
  from t rows perm all show ?thesis by blast
qed

text \<open>
  The theorem at a statement of two rows with the same two dates, in different orders.
\<close>

theorem FinancialTable_rows_and_columns_witness:
  "[(''Total Revenue'', [(''2022-03-31'', Some 90), (''2023-03-31'', Some 100)]),
    (''Net Income'', [(''2023-03-31'', None), (''2022-03-31'', Some 8)])] \<noteq> []
   \<and> set (Object_keys [(''2023-03-31'', None), (''2022-03-31'', Some (8::real))])
       = set (Object_keys [(''2022-03-31'', Some 90), (''2023-03-31'', Some (100::real))])
   \<and> FinancialTable plain_host ''Income Statement''
       (Some [(''Total Revenue'', [(''2022-03-31'', Some 90), (''2023-03-31'', Some 100)]),
              (''Net Income'', [(''2023-03-31'', None), (''2022-03-31'', Some 8)])])
     = Inr (Table
         \<lparr> caption = ''Income Statement Breakdown'',
           ths = [\<lparr> th_key = ''2023-03-31'', th_text = ''2023-03-31'' \<rparr>,
                  \<lparr> th_key = ''2022-03-31'', th_text = ''2022-03-31'' \<rparr>],
           trs = [\<lparr> tr_key = ''Total Revenue'', tr_name = ''Total Revenue'',
                    tr_cells = [\<lparr> td_key = ''Total Revenue-2023-03-31'', td_text = ''#'' \<rparr>,
                                \<lparr> td_key = ''Total Revenue-2022-03-31'', td_text = ''#'' \<rparr>] \<rparr>,
                  \<lparr> tr_key = ''Net Income'', tr_name = ''Net Income'',
                    tr_cells = [\<lparr> td_key = ''Net Income-2023-03-31'', td_text = ''-'' \<rparr>,
                                \<lparr> td_key = ''Net Income-2022-03-31'', td_text = ''#'' \<rparr>] \<rparr>] \<rparr>)
   \<and> statement_dates
         [(''Total Revenue'', [(''2022-03-31'', Some 90), (''2023-03-31'', Some 100)]),
          (''Net Income'', [(''2023-03-31'', None), (''2022-03-31'', Some 8)])]
       = [''2023-03-31'', ''2022-03-31'']"
  using FinancialTable_rows_and_columns
    [of "[(''Total Revenue'', [(''2022-03-31'', Some 90), (''2023-03-31'', Some 100)]),
          (''Net Income'', [(''2023-03-31'', None), (''2022-03-31'', Some 8)])]"
        plain_host "''Income Statement''"]
  by (simp add: FinancialTable_def Object_keys_def availableDates_def body_row_def
      cell_text_def cell_value_def plain_host_def statement_dates_def insert_commute)

text \<open>
  Claim C1 as it is written fails: a date that only a later row has gets no column.
  Here the second row has a value for 2022-03-31 and the table has the single column
  2023-03-31.
\<close>

theorem FinancialTable_columns_counterexample:
  "FinancialTable plain_host ''Income Statement''
     (Some [(''Total Revenue'', [(''2023-03-31'', Some 100)]),
            (''Net Income'', [(''2023-03-31'', Some 10), (''2022-03-31'', Some 8)])])
   = Inr (Table
       \<lparr> caption = ''Income Statement Breakdown'',
         ths = [\<lparr> th_key = ''2023-03-31'', th_text = ''2023-03-31'' \<rparr>],
         trs = [\<lparr> tr_key = ''Total Revenue'', tr_name = ''Total Revenue'',
                  tr_cells = [\<lparr> td_key = ''Total Revenue-2023-03-31'', td_text = ''#'' \<rparr>] \<rparr>,
                \<lparr> tr_key = ''Net Income'', tr_name = ''Net Income'',
                  tr_cells = [\<lparr> td_key = ''Net Income-2023-03-31'', td_text = ''#'' \<rparr>] \<rparr>] \<rparr>)
   \<and> statement_dates
         [(''Total Revenue'', [(''2023-03-31'', Some 100)]),
          (''Net Income'', [(''2023-03-31'', Some 10), (''2022-03-31'', Some 8)])]
       = [''2023-03-31'', ''2022-03-31'']"
  by (simp add: FinancialTable_def Object_keys_def availableDates_def body_row_def
      cell_text_def cell_value_def plain_host_def statement_dates_def)

text \<open>
  Every cell of the body shows \<open>cell_text\<close> of the value read at its row and column;
  every row has one cell per column.
\<close>

lemma FinancialTable_cells:
  assumes "d \<noteq> []"
  shows "\<exists>t. FinancialTable H title (Some d) = Inr (Table t)
           \<and> length (trs t) = length d
           \<and> (\<forall>i<length d.
                 tr_name (trs t ! i) = fst (d ! i)
               \<and> length (tr_cells (trs t ! i)) = length (ths t)
               \<and> (\<exists>r. map_of d (fst (d ! i)) = Some r
                      \<and> (\<forall>j<length (ths t).
                            td_text (tr_cells (trs t ! i) ! j)
                              = cell_text H (cell_value r (th_key (ths t ! j))))))"
proof -
  let ?dates = "availableDates (snd (hd d))"
  let ?t = "\<lparr> caption = title @ '' Breakdown'',
              ths = map (\<lambda>date. \<lparr> th_key = date, th_text = toLocaleDateString H date \<rparr>) ?dates,
              trs = map (\<lambda>row. table_row H (the (map_of d row)) ?dates row) (Object_keys d) \<rparr>"
  have t: "FinancialTable H title (Some d) = Inr (Table ?t)"
    by (rule FinancialTable_nonempty [OF assms])
  have len: "length (trs ?t) = length d"
    by (simp add: Object_keys_def)
  have cells: "tr_name (trs ?t ! i) = fst (d ! i)
               \<and> length (tr_cells (trs ?t ! i)) = length (ths ?t)
               \<and> (\<exists>r. map_of d (fst (d ! i)) = Some r
                      \<and> (\<forall>j<length (ths ?t).
                            td_text (tr_cells (trs ?t ! i) ! j)
                              = cell_text H (cell_value r (th_key (ths ?t ! j)))))"
    if i: "i < length d" for i
  proof -
    have "fst (d ! i) \<in> set (Object_keys d)"
      using i by (simp add: Object_keys_def)
    from key_lookup [OF this] obtain r where r: "map_of d (fst (d ! i)) = Some r" ..
    have row: "trs ?t ! i = table_row H r ?dates (fst (d ! i))"
      using i by (simp add: Object_keys_def r)
    show ?thesis
      unfolding row using r by (simp add: table_row_def)
  qed
  from t len cells show ?thesis by blast
qed

lemma cell_text_placeholder: "\<not> truthy v \<Longrightarrow> cell_text H v = ''-''"
  by (simp add: cell_text_def)

lemma not_number_cell_value:
  "(\<forall>x. cell_value r k \<noteq> Number x) \<Longrightarrow> \<not> truthy (cell_value r k)"
  by (auto simp: cell_value_def split: option.splits)

text \<open>
  Claim C4.  In the table of a non-empty statement every body row has a cell for every
  date column, and the cell of a row and a date at which the row has no number (the
  date is missing from the row, or its value is null) shows the placeholder \<open>-\<close>.
\<close>

theorem FinancialTable_missing_cell_placeholder:
  assumes "d \<noteq> []"
  shows "\<exists>t. FinancialTable H title (Some d) = Inr (Table t)
           \<and> length (trs t) = length d
           \<and> (\<forall>i<length d.
                 tr_name (trs t ! i) = fst (d ! i)
               \<and> length (tr_cells (trs t ! i)) = length (ths t)
               \<and> (\<exists>r. map_of d (fst (d ! i)) = Some r
                      \<and> (\<forall>j<length (ths t).
                            (\<forall>x. cell_value r (th_key (ths t ! j)) \<noteq> Number x)
                            \<longrightarrow> td_text (tr_cells (trs t ! i) ! j) = ''-'')))"
proof -
  from FinancialTable_cells [OF assms, of H title] obtain t where
    t: "FinancialTable H title (Some d) = Inr (Table t)" and
    len: "length (trs t) = length d" and
    cells: "\<forall>i<length d.
                 tr_name (trs t ! i) = fst (d ! i)
               \<and> length (tr_cells (trs t ! i)) = length (ths t)
               \<and> (\<exists>r. map_of d (fst (d ! i)) = Some r
                      \<and> (\<forall>j<length (ths t).
                            td_text (tr_cells (trs t ! i) ! j)
                              = cell_text H (cell_value r (th_key (ths t ! j)))))"
    by blast
  have "tr_name (trs t ! i) = fst (d ! i)
               \<and> length (tr_cells (trs t ! i)) = length (ths t)
               \<and> (\<exists>r. map_of d (fst (d ! i)) = Some r
                      \<and> (\<forall>j<length (ths t).
                            (\<forall>x. cell_value r (th_key (ths t ! j)) \<noteq> Number x)
                            \<longrightarrow> td_text (tr_cells (trs t ! i) ! j) = ''-''))"
    if i: "i < length d" for i
  proof -
    from cells i obtain r where
      n: "tr_name (trs t ! i) = fst (d ! i)" and
      l: "length (tr_cells (trs t ! i)) = length (ths t)" and
      r: "map_of d (fst (d ! i)) = Some r" and
      c: "\<forall>j<length (ths t). td_text (tr_cells (trs t ! i) ! j)
                              = cell_text H (cell_value r (th_key (ths t ! j)))"
      by blast
    have "\<forall>j<length (ths t). (\<forall>x. cell_value r (th_key (ths t ! j)) \<noteq> Number x)
                            \<longrightarrow> td_text (tr_cells (trs t ! i) ! j) = ''-''"
      using c by (simp add: cell_text_placeholder not_number_cell_value)
    with n l r show ?thesis by blast
  qed
  with t len show ?thesis by blast
qed

text \<open>
  The theorem at a statement whose first row has a null and whose second row lacks a
  date: both cells are there and show the placeholder.
\<close>

theorem FinancialTable_missing_cell_placeholder_witness:
  "[(''Total Revenue'', [(''2023-03-31'', Some 100), (''2022-03-31'', None)]),
    (''Net Income'', [(''2023-03-31'', Some 10)])] \<noteq> []
   \<and> cell_value [(''2023-03-31'', Some 100), (''2022-03-31'', None)] ''2022-03-31'' = Null
   \<and> cell_value [(''2023-03-31'', Some 10)] ''2022-03-31'' = Undefined
   \<and> FinancialTable plain_host ''Balance Sheet''
       (Some [(''Total Revenue'', [(''2023-03-31'', Some 100), (''2022-03-31'', None)]),
              (''Net Income'', [(''2023-03-31'', Some 10)])])
     = Inr (Table
         \<lparr> caption = ''Balance Sheet Breakdown'',
           ths = [\<lparr> th_key = ''2023-03-31'', th_text = ''2023-03-31'' \<rparr>,
                  \<lparr> th_key = ''2022-03-31'', th_text = ''2022-03-31'' \<rparr>],
           trs = [\<lparr> tr_key = ''Total Revenue'', tr_name = ''Total Revenue'',
                    tr_cells = [\<lparr> td_key = ''Total Revenue-2023-03-31'', td_text = ''#'' \<rparr>,
                                \<lparr> td_key = ''Total Revenue-2022-03-31'', td_text = ''-'' \<rparr>] \<rparr>,
                  \<lparr> tr_key = ''Net Income'', tr_name = ''Net Income'',
                    tr_cells = [\<lparr> td_key = ''Net Income-2023-03-31'', td_text = ''#'' \<rparr>,
                                \<lparr> td_key = ''Net Income-2022-03-31'', td_text = ''-'' \<rparr>] \<rparr>] \<rparr>)"
  using FinancialTable_missing_cell_placeholder
    [of "[(''Total Revenue'', [(''2023-03-31'', Some 100), (''2022-03-31'', None)]),
          (''Net Income'', [(''2023-03-31'', Some 10)])]"
        plain_host "''Balance Sheet''"]
  by (simp add: FinancialTable_def Object_keys_def availableDates_def body_row_def
      cell_text_def cell_value_def plain_host_def)

text \<open>The lexicographic order of digit strings of one length is the order of their numbers.\<close>

lemma digit_code: "is_digit c \<longleftrightarrow> 48 \<le> (of_char c :: nat) \<and> (of_char c :: nat) \<le> 57"
  by (simp add: is_digit_def less_eq_char_def)

lemma digit_value_less: "is_digit c \<Longrightarrow> digit_value c < 10"
  unfolding digit_code digit_value_def by arith

lemma digit_less_iff:
  "is_digit c \<Longrightarrow> is_digit d \<Longrightarrow> c < d \<longleftrightarrow> digit_value c < digit_value d"
  unfolding digit_code digit_value_def less_char_def by arith

lemma digit_eq_iff:
  assumes "is_digit c" and "is_digit d"
  shows "c = d \<longleftrightarrow> digit_value c = digit_value d"
proof -
  from assms have "48 \<le> (of_char c :: nat)" "48 \<le> (of_char d :: nat)"
    by (simp_all add: digit_code)
  then have "digit_value c = digit_value d \<longleftrightarrow> (of_char c :: nat) = of_char d"
    unfolding digit_value_def by arith
  also have "\<dots> \<longleftrightarrow> c = d" by (rule of_char_eq_iff)
  finally show ?thesis by simp
qed

lemma digits_value_less: "list_all is_digit ds \<Longrightarrow> digits_value ds < 10 ^ length ds"
proof (induction ds)
  case Nil
  show ?case by simp
next
  case (Cons c cs)
  then have c: "digit_value c \<le> 9" and cs: "digits_value cs < 10 ^ length cs"
    using digit_value_less [of c] by simp_all
  have "digit_value c * 10 ^ length cs + digits_value cs < 9 * 10 ^ length cs + 10 ^ length cs"
    using c cs by (meson add_le_less_mono mult_le_mono1)
  then show ?case by simp
qed

lemma digits_order:
  assumes "length xs = length ys" and "list_all is_digit xs" and "list_all is_digit ys"
  shows "(xs < ys \<longleftrightarrow> digits_value xs < digits_value ys)
       \<and> (xs = ys \<longleftrightarrow> digits_value xs = digits_value ys)"
  using assms
proof (induction xs ys rule: list_induct2)
  case Nil
  show ?case by simp
next
  case (Cons x xs y ys)
  let ?n = "length xs"
  from Cons.prems have dx: "is_digit x" and dy: "is_digit y"
    and dxs: "list_all is_digit xs" and dys: "list_all is_digit ys" by simp_all
  from Cons.IH [OF dxs dys] have
    lt: "xs < ys \<longleftrightarrow> digits_value xs < digits_value ys" and
    eq: "xs = ys \<longleftrightarrow> digits_value xs = digits_value ys" by simp_all
  have bx: "digits_value xs < 10 ^ ?n" using digits_value_less [OF dxs] .
  have by': "digits_value ys < 10 ^ ?n" using digits_value_less [OF dys] Cons.hyps by simp
  have len: "length ys = ?n" using Cons.hyps by simp
  consider "digit_value x < digit_value y" | "digit_value y < digit_value x"
    | "digit_value x = digit_value y" by linarith
  then show ?case
  proof cases
    case 1
    then have "x < y" "x \<noteq> y" using digit_less_iff [OF dx dy] by auto
    have "(digit_value x + 1) * 10 ^ ?n \<le> digit_value y * 10 ^ ?n"
      using 1 by (intro mult_le_mono1) simp
    then have "digit_value x * 10 ^ ?n + digits_value xs < digit_value y * 10 ^ ?n + digits_value ys"
      using bx by simp
    with \<open>x < y\<close> \<open>x \<noteq> y\<close> show ?thesis by (simp add: len)
  next
    case 2
    then have "y < x" using digit_less_iff [OF dy dx] by auto
    then have "\<not> x < y" "x \<noteq> y" by auto
    have "(digit_value y + 1) * 10 ^ ?n \<le> digit_value x * 10 ^ ?n"
      using 2 by (intro mult_le_mono1) simp
    then have "digit_value y * 10 ^ ?n + digits_value ys < digit_value x * 10 ^ ?n + digits_value xs"
      using by' by simp
    with \<open>\<not> x < y\<close> \<open>x \<noteq> y\<close> show ?thesis by (simp add: len)
  next
    case 3
    then have "x = y" using digit_eq_iff [OF dx dy] by simp
    then show ?thesis using lt eq by (simp add: len)
  qed
qed

lemma append_le_same_length:
  assumes "length p = length q"
  shows "p @ s \<le> q @ t \<longleftrightarrow> p < q \<or> (p = q \<and> s \<le> t)"
  using assms by (induction p q rule: list_induct2) auto


lemma iso_key_parts:
  assumes "10 \<le> length k"
  shows "k = take 4 k @ (k ! 4) # take 2 (drop 5 k) @ (k ! 7) # take 2 (drop 8 k) @ drop 10 k"
proof -
  have a: "k = take 4 k @ drop 4 k" by simp
  have b: "drop 4 k = (k ! 4) # drop 5 k"
    using assms Cons_nth_drop_Suc [of 4 k] by simp
  have c: "drop 5 k = take 2 (drop 5 k) @ drop 7 k"
    using append_take_drop_id [of 2 "drop 5 k"] by simp
  have d: "drop 7 k = (k ! 7) # drop 8 k"
    using assms Cons_nth_drop_Suc [of 7 k] by simp
  have e: "drop 8 k = take 2 (drop 8 k) @ drop 10 k"
    using append_take_drop_id [of 2 "drop 8 k"] by simp
  have "k = take 4 k @ (k ! 4) # drop 5 k" using a b by simp
  also have "drop 5 k = take 2 (drop 5 k) @ (k ! 7) # drop 8 k" using c d by simp
  also have "drop 8 k = take 2 (drop 8 k) @ drop 10 k" by (rule e)
  finally show ?thesis .
qed

lemma digits_le_cases:
  assumes "length p = length q" and "list_all is_digit p" and "list_all is_digit q"
    and "p @ s \<le> q @ t"
  shows "digits_value p < digits_value q \<or> (digits_value p = digits_value q \<and> s \<le> t)"
  using assms(4) digits_order [OF assms(1-3)]
  unfolding append_le_same_length [OF assms(1)] by auto

text \<open>ISO keys compare as their dates do.\<close>

lemma iso_key_order:
  assumes a: "is_iso_key a" and b: "is_iso_key b" and le: "a \<le> b"
  shows "iso_date a \<le> iso_date b"
proof -
  let ?ya = "take 4 a" and ?ma = "take 2 (drop 5 a)" and ?da = "take 2 (drop 8 a)"
  let ?yb = "take 4 b" and ?mb = "take 2 (drop 5 b)" and ?db = "take 2 (drop 8 b)"
  from a b have la: "10 \<le> length a" and lb: "10 \<le> length b"
    by (simp_all add: is_iso_key_def)
  from a have da: "list_all is_digit ?ya" "list_all is_digit ?ma" "list_all is_digit ?da"
    and sa: "a ! 4 = CHR ''-''" "a ! 7 = CHR ''-''"
    by (simp_all add: is_iso_key_def)
  from b have db: "list_all is_digit ?yb" "list_all is_digit ?mb" "list_all is_digit ?db"
    and sb: "b ! 4 = CHR ''-''" "b ! 7 = CHR ''-''"
    by (simp_all add: is_iso_key_def)
  have ly: "length ?ya = length ?yb" using la lb by simp
  have lm: "length ?ma = length ?mb" using la lb by simp
  have ld: "length ?da = length ?db" using la lb by simp
  have pa: "a = ?ya @ CHR ''-'' # ?ma @ CHR ''-'' # ?da @ drop 10 a"
    using iso_key_parts [OF la] sa by simp
  have pb: "b = ?yb @ CHR ''-'' # ?mb @ CHR ''-'' # ?db @ drop 10 b"
    using iso_key_parts [OF lb] sb by simp
  from le have "?ya @ CHR ''-'' # ?ma @ CHR ''-'' # ?da @ drop 10 a
                 \<le> ?yb @ CHR ''-'' # ?mb @ CHR ''-'' # ?db @ drop 10 b"
    using pa pb by simp
  from digits_le_cases [OF ly da(1) db(1) this]
  consider "digits_value ?ya < digits_value ?yb"
    | "digits_value ?ya = digits_value ?yb"
      "?ma @ CHR ''-'' # ?da @ drop 10 a \<le> ?mb @ CHR ''-'' # ?db @ drop 10 b"
    by auto
  then show ?thesis
  proof cases
    case 1
    then show ?thesis by (simp add: iso_date_def)
  next
    case 2
    from digits_le_cases [OF lm da(2) db(2) 2(2)]
    consider "digits_value ?ma < digits_value ?mb"
      | "digits_value ?ma = digits_value ?mb" "?da @ drop 10 a \<le> ?db @ drop 10 b"
      by auto
    then show ?thesis
    proof cases
      case 1
      with 2(1) show ?thesis by (simp add: iso_date_def)
    next
      case 2
      note m = this
      from digits_le_cases [OF ld da(3) db(3) m(2)]
      have "digits_value ?da \<le> digits_value ?db" by auto
      with \<open>digits_value ?ya = digits_value ?yb\<close> m(1) show ?thesis
        by (simp add: iso_date_def)
    qed
  qed
qed

lemma availableDates_set: "set (availableDates r) = set (Object_keys r)"
  by (simp add: availableDates_def)

text \<open>
  Claim C5, as the code has it.  The date columns of the table of a non-empty statement
  are in descending order of their keys, in the order \<open>sort()\<close> compares strings.  When
  the date keys of the first row are in the ISO form, that is the descending order of
  the dates the keys are read as: the columns run from the newest period to the oldest.
\<close>

theorem FinancialTable_columns_descending:
  assumes "d \<noteq> []"
  shows "\<exists>t. FinancialTable H title (Some d) = Inr (Table t)
           \<and> sorted_wrt (\<lambda>a b. b \<le> a) (map th_key (ths t))
           \<and> ((\<forall>k\<in>set (Object_keys (snd (hd d))). is_iso_key k)
                \<longrightarrow> sorted_wrt (\<lambda>a b. iso_date b \<le> iso_date a) (map th_key (ths t))
                    \<and> (\<forall>k\<in>set (map th_key (ths t)). key_date k = Some (iso_date k)))"
proof -
  let ?dates = "availableDates (snd (hd d))"
  let ?t = "\<lparr> caption = title @ '' Breakdown'',
              ths = map (\<lambda>date. \<lparr> th_key = date, th_text = toLocaleDateString H date \<rparr>) ?dates,
              trs = map (\<lambda>row. table_row H (the (map_of d row)) ?dates row) (Object_keys d) \<rparr>"
  have t: "FinancialTable H title (Some d) = Inr (Table ?t)"
    by (rule FinancialTable_nonempty [OF assms])
  have cols: "map th_key (ths ?t) = ?dates"
    by (simp add: comp_def)
  have desc: "sorted_wrt (\<lambda>a b. b \<le> a) (map th_key (ths ?t))"
    unfolding cols by (rule availableDates_descending)
  have dates: "(\<forall>k\<in>set (Object_keys (snd (hd d))). is_iso_key k)
                \<longrightarrow> sorted_wrt (\<lambda>a b. iso_date b \<le> iso_date a) (map th_key (ths ?t))
                    \<and> (\<forall>k\<in>set (map th_key (ths ?t)). key_date k = Some (iso_date k))"
  proof
    assume "\<forall>k\<in>set (Object_keys (snd (hd d))). is_iso_key k"
    then have iso: "\<forall>k\<in>set (map th_key (ths ?t)). is_iso_key k"
      unfolding cols availableDates_set .
    have "sorted_wrt (\<lambda>a b. iso_date b \<le> iso_date a) (map th_key (ths ?t))"
      by (rule sorted_wrt_mono_rel [OF _ desc]) (use iso iso_key_order in blast)
    moreover have "\<forall>k\<in>set (map th_key (ths ?t)). key_date k = Some (iso_date k)"
      using iso by (simp add: key_date_def)
    ultimately show "sorted_wrt (\<lambda>a b. iso_date b \<le> iso_date a) (map th_key (ths ?t))
                    \<and> (\<forall>k\<in>set (map th_key (ths ?t)). key_date k = Some (iso_date k))"
      by blast
  qed
  from t desc dates show ?thesis by blast
qed

text \<open>
  The theorem at a statement whose first row lists three period ends out of order, as
  ISO days followed by a time.
\<close>

theorem FinancialTable_columns_descending_witness:
  "[(''Total Revenue'', [(''2022-03-31 00:00:00'', Some 90),
                         (''2024-03-31 00:00:00'', Some 120),
                         (''2023-03-31 00:00:00'', Some 100)])] \<noteq> []
   \<and> is_iso_key ''2022-03-31 00:00:00''
   \<and> is_iso_key ''2024-03-31 00:00:00''
   \<and> is_iso_key ''2023-03-31 00:00:00''
   \<and> FinancialTable plain_host ''Cash Flow''
       (Some [(''Total Revenue'', [(''2022-03-31 00:00:00'', Some 90),
                         (''2024-03-31 00:00:00'', Some 120),
                         (''2023-03-31 00:00:00'', Some 100)])])
     = Inr (Table
         \<lparr> caption = ''Cash Flow Breakdown'',
           ths = [\<lparr> th_key = ''2024-03-31 00:00:00'', th_text = ''2024-03-31 00:00:00'' \<rparr>,
                  \<lparr> th_key = ''2023-03-31 00:00:00'', th_text = ''2023-03-31 00:00:00'' \<rparr>,
                  \<lparr> th_key = ''2022-03-31 00:00:00'', th_text = ''2022-03-31 00:00:00'' \<rparr>],
           trs = [\<lparr> tr_key = ''Total Revenue'', tr_name = ''Total Revenue'',
                    tr_cells = [\<lparr> td_key = ''Total Revenue-2024-03-31 00:00:00'', td_text = ''#'' \<rparr>,
                                \<lparr> td_key = ''Total Revenue-2023-03-31 00:00:00'', td_text = ''#'' \<rparr>,
                                \<lparr> td_key = ''Total Revenue-2022-03-31 00:00:00'', td_text = ''#'' \<rparr>] \<rparr>] \<rparr>)
   \<and> key_date ''2024-03-31 00:00:00'' = Some (2024, 3, 31)
   \<and> key_date ''2023-03-31 00:00:00'' = Some (2023, 3, 31)
   \<and> key_date ''2022-03-31 00:00:00'' = Some (2022, 3, 31)
   \<and> sorted_wrt (\<lambda>a b. iso_date b \<le> iso_date a)
        [''2024-03-31 00:00:00'', ''2023-03-31 00:00:00'', ''2022-03-31 00:00:00'']"
  using FinancialTable_columns_descending
    [of "[(''Total Revenue'', [(''2022-03-31 00:00:00'', Some 90),
                         (''2024-03-31 00:00:00'', Some 120),
                         (''2023-03-31 00:00:00'', Some 100)])]"
        plain_host "''Cash Flow''"]
  by (simp add: FinancialTable_def Object_keys_def availableDates_def body_row_def
      cell_text_def cell_value_def plain_host_def
      key_date_def is_iso_key_def iso_date_def is_digit_def digit_value_def)

text \<open>
  Claim C5 as it is written fails: the order is that of the key strings, whatever dates
  they are read as.  With keys in the form month/day/year the column of December 2023
  comes before the column of January 2024, the older period first.
\<close>

theorem FinancialTable_columns_date_order_counterexample:
  "FinancialTable plain_host ''Income Statement''
     (Some [(''Total Revenue'', [(''1/31/2024'', Some 120), (''12/31/2023'', Some 100)])])
   = Inr (Table
       \<lparr> caption = ''Income Statement Breakdown'',
         ths = [\<lparr> th_key = ''12/31/2023'', th_text = ''12/31/2023'' \<rparr>,
                \<lparr> th_key = ''1/31/2024'', th_text = ''1/31/2024'' \<rparr>],
         trs = [\<lparr> tr_key = ''Total Revenue'', tr_name = ''Total Revenue'',
                  tr_cells = [\<lparr> td_key = ''Total Revenue-12/31/2023'', td_text = ''#'' \<rparr>,
                              \<lparr> td_key = ''Total Revenue-1/31/2024'', td_text = ''#'' \<rparr>] \<rparr>] \<rparr>)
   \<and> key_date ''12/31/2023'' = Some (2023, 12, 31)
   \<and> key_date ''1/31/2024'' = Some (2024, 1, 31)
   \<and> ((2023, 12, 31) :: ymd) < (2024, 1, 31)"
  by (simp add: FinancialTable_def Object_keys_def availableDates_def body_row_def
      cell_text_def cell_value_def plain_host_def
      key_date_def is_iso_key_def slash_date_def is_number_def is_digit_def digit_value_def)

lemma StatCard_placeholder: "\<not> truthy v \<Longrightarrow> stat_value (StatCard H l v p) = ''-''"
  by (simp add: StatCard_def)

text \<open>
  Claim C9.  \<open>StatCard\<close> shows the placeholder \<open>-\<close> for every falsy value, so the
  number \<open>0\<close> is shown exactly as an absent field is; a last history point with volume
  \<open>0\<close> gives the volume card \<open>-\<close>; and a cell of a financial statement table whose
  stored value is \<open>0\<close> shows \<open>-\<close>.
\<close>

theorem falsy_value_placeholder:
  shows "(\<not> truthy v \<longrightarrow> stat_value (StatCard H l v p) = ''-'')
       \<and> stat_value (StatCard H l (Number 0) p) = stat_value (StatCard H l Undefined p)
       \<and> stat_value (StatCard H l (Number 0) p) = ''-''
       \<and> (history sd \<noteq> [] \<and> volume (last (history sd)) = 0
            \<longrightarrow> stat_value (volumeCard H sd) = ''-'')
       \<and> (d \<noteq> [] \<longrightarrow>
            (\<exists>t. FinancialTable H title (Some d) = Inr (Table t)
               \<and> (\<forall>i<length d. \<exists>r. map_of d (fst (d ! i)) = Some r
                     \<and> (\<forall>j<length (ths t).
                           map_of r (th_key (ths t ! j)) = Some (Some 0)
                           \<longrightarrow> td_text (tr_cells (trs t ! i) ! j) = ''-''))))"
proof -
  have card: "\<not> truthy v \<longrightarrow> stat_value (StatCard H l v p) = ''-''"
    by (simp add: StatCard_placeholder)
  have zero: "stat_value (StatCard H l (Number 0) p) = ''-''"
    by (simp add: StatCard_placeholder)
  have same: "stat_value (StatCard H l (Number 0) p) = stat_value (StatCard H l Undefined p)"
    by (simp add: StatCard_placeholder)
  have vol: "history sd \<noteq> [] \<and> volume (last (history sd)) = 0
            \<longrightarrow> stat_value (volumeCard H sd) = ''-''"
    by (auto simp: volumeCard_def StatCard_def last_conv_nth)
  have tab: "d \<noteq> [] \<longrightarrow>
            (\<exists>t. FinancialTable H title (Some d) = Inr (Table t)
               \<and> (\<forall>i<length d. \<exists>r. map_of d (fst (d ! i)) = Some r
                     \<and> (\<forall>j<length (ths t).
                           map_of r (th_key (ths t ! j)) = Some (Some 0)
                           \<longrightarrow> td_text (tr_cells (trs t ! i) ! j) = ''-'')))"
  proof
    assume "d \<noteq> []"
    from FinancialTable_cells [OF this, of H title] obtain t where
      t: "FinancialTable H title (Some d) = Inr (Table t)" and
      cells: "\<forall>i<length d.
                 tr_name (trs t ! i) = fst (d ! i)
               \<and> length (tr_cells (trs t ! i)) = length (ths t)
               \<and> (\<exists>r. map_of d (fst (d ! i)) = Some r
                      \<and> (\<forall>j<length (ths t).
                            td_text (tr_cells (trs t ! i) ! j)
                              = cell_text H (cell_value r (th_key (ths t ! j)))))"
      by blast
    have "\<exists>r. map_of d (fst (d ! i)) = Some r
                     \<and> (\<forall>j<length (ths t).
                           map_of r (th_key (ths t ! j)) = Some (Some 0)
                           \<longrightarrow> td_text (tr_cells (trs t ! i) ! j) = ''-'')"
      if "i < length d" for i
    proof -
      from cells that obtain r where
        r: "map_of d (fst (d ! i)) = Some r" and
        c: "\<forall>j<length (ths t). td_text (tr_cells (trs t ! i) ! j)
                              = cell_text H (cell_value r (th_key (ths t ! j)))"
        by blast
      have "\<forall>j<length (ths t). map_of r (th_key (ths t ! j)) = Some (Some 0)
                           \<longrightarrow> td_text (tr_cells (trs t ! i) ! j) = ''-''"
        using c by (simp add: cell_text_def cell_value_def)
      with r show ?thesis by blast
    qed
    with t show "\<exists>t. FinancialTable H title (Some d) = Inr (Table t)
               \<and> (\<forall>i<length d. \<exists>r. map_of d (fst (d ! i)) = Some r
                     \<and> (\<forall>j<length (ths t).
                           map_of r (th_key (ths t ! j)) = Some (Some 0)
                           \<longrightarrow> td_text (tr_cells (trs t ! i) ! j) = ''-''))"
      by blast
  qed
  from card same zero vol tab show ?thesis by blast
qed

text \<open>
  The theorem at a null value, at a history whose last volume is \<open>0\<close>, and at a
  statement with a stored \<open>0\<close>; a value of \<open>7\<close> is printed for comparison.
\<close>

theorem falsy_value_placeholder_witness:
  "\<not> truthy Null
   \<and> stat_value (StatCard plain_host ''52W Low'' Null ''Rs '') = ''-''
   \<and> stat_value (StatCard plain_host ''52W Low'' (Number 0) ''Rs '') = ''-''
   \<and> stat_value (StatCard plain_host ''52W Low'' (Number 7) ''Rs '') = ''Rs #''
   \<and> stat_value (volumeCard plain_host
        \<lparr> symbol = ''TCS.NS'', info = Some [],
          history = [\<lparr> date = ''2024-01-03'', open_price = 12, high = 12, low = 8,
                       close = 9, volume = 0 \<rparr>] \<rparr>) = ''-''
   \<and> FinancialTable plain_host ''Cash Flow''
        (Some [(''Dividends Paid'', [(''2023-03-31'', Some 0), (''2022-03-31'', Some 4)])])
     = Inr (Table
         \<lparr> caption = ''Cash Flow Breakdown'',
           ths = [\<lparr> th_key = ''2023-03-31'', th_text = ''2023-03-31'' \<rparr>,
                  \<lparr> th_key = ''2022-03-31'', th_text = ''2022-03-31'' \<rparr>],
           trs = [\<lparr> tr_key = ''Dividends Paid'', tr_name = ''Dividends Paid'',
                    tr_cells = [\<lparr> td_key = ''Dividends Paid-2023-03-31'', td_text = ''-'' \<rparr>,
                                \<lparr> td_key = ''Dividends Paid-2022-03-31'', td_text = ''#'' \<rparr>] \<rparr>] \<rparr>)"
  using falsy_value_placeholder
    [of Null plain_host "''52W Low''" "''Rs ''"
        "\<lparr> symbol = ''TCS.NS'', info = Some [],
          history = [\<lparr> date = ''2024-01-03'', open_price = 12, high = 12, low = 8,
                       close = 9, volume = 0 \<rparr>] \<rparr>"
        "[(''Dividends Paid'', [(''2023-03-31'', Some 0), (''2022-03-31'', Some 4)])]"
        "''Cash Flow''"]
  by (simp add: FinancialTable_def Object_keys_def availableDates_def body_row_def
      cell_text_def cell_value_def plain_host_def StatCard_def)

section \<open>The derived price change\<close>

lemma period_change_first_last:
  assumes "2 \<le> length h"
  shows "period_change h =
           \<lparr> change = close (last h) - close (hd h),
             percent = js_times (js_divide (close (last h) - close (hd h)) (close (hd h))) 100 \<rparr>"
proof -
  from assms have ne: "h \<noteq> []" by auto
  have first: "h ! 0 = hd h" using ne by (simp add: hd_conv_nth)
  have final: "h ! (length h - 1) = last h" using ne by (simp add: last_conv_nth)
  show ?thesis
    unfolding period_change_def Let_def first final ..
qed

lemma period_change_closes:
  assumes "map close h = map close h'"
  shows "period_change h = period_change h'"
proof (cases "h = []")
  case True
  with assms have "h' = []" by simp
  with True show ?thesis by simp
next
  case False
  from assms have len: "length h = length h'" by (rule map_eq_imp_length_eq)
  have at: "close (h ! k) = close (h' ! k)" if "k < length h" for k
  proof -
    have "map close h ! k = close (h ! k)" using that by simp
    moreover have "map close h' ! k = close (h' ! k)" using that len by simp
    ultimately show ?thesis using assms by simp
  qed
  have a: "close (h ! 0) = close (h' ! 0)" using False by (simp add: at)
  have "length h - 1 < length h" using False by simp
  then have "close (h ! (length h - 1)) = close (h' ! (length h - 1))" by (rule at)
  then have b: "close (h ! (length h' - 1)) = close (h' ! (length h' - 1))"
    by (simp only: len)
  show ?thesis
    unfolding period_change_def Let_def len a b ..
qed

text \<open>
  Claim C2, as the code has it.  For a fetched stock with an \<open>info\<close> object and two or
  more history points, the second variant derives the change as the last close minus
  the first close and the percentage as that difference divided by the first close,
  times 100 (a division by a first close of zero leaves the finite numbers).  The first
  variant derives the same when \<open>info.currentPrice\<close> and \<open>info.dayHigh\<close> are both truthy,
  and derives nothing, returning \<open>null\<close>, when one of them is not.
\<close>

theorem getPriceChange_value:
  assumes "2 \<le> length (history sd)" and "info sd = Some i"
  shows "getPriceChange2 (Some sd) =
           Inr (PCObject
             \<lparr> change = close (last (history sd)) - close (hd (history sd)),
               percent = js_times (js_divide (close (last (history sd)) - close (hd (history sd)))
                                             (close (hd (history sd)))) 100 \<rparr>)
       \<and> (truthy (get_prop i ''currentPrice'') \<and> truthy (get_prop i ''dayHigh'')
            \<longrightarrow> getPriceChange1 (Some sd) = getPriceChange2 (Some sd))
       \<and> (\<not> (truthy (get_prop i ''currentPrice'') \<and> truthy (get_prop i ''dayHigh''))
            \<longrightarrow> getPriceChange1 (Some sd) = Inr PCNull)
       \<and> (close (hd (history sd)) \<noteq> 0
            \<longrightarrow> js_times (js_divide (close (last (history sd)) - close (hd (history sd)))
                                    (close (hd (history sd)))) 100
                = Finite ((close (last (history sd)) - close (hd (history sd)))
                          / close (hd (history sd)) * 100))"
proof -
  have len: "\<not> length (history sd) < 2" using assms(1) by simp
  have v2: "getPriceChange2 (Some sd) = Inr (PCObject (period_change (history sd)))"
    by (simp add: getPriceChange2_def assms(2) len)
  have v1: "getPriceChange1 (Some sd) = getPriceChange2 (Some sd)"
    if "truthy (get_prop i ''currentPrice'') \<and> truthy (get_prop i ''dayHigh'')"
    using that by (simp add: getPriceChange1_def getPriceChange2_def assms(2) len)
  have none: "getPriceChange1 (Some sd) = Inr PCNull"
    if "\<not> (truthy (get_prop i ''currentPrice'') \<and> truthy (get_prop i ''dayHigh''))"
    using that by (auto simp: getPriceChange1_def assms(2))
  show ?thesis
    using v1 none by (simp add: v2 period_change_first_last [OF assms(1)])
qed

text \<open>
  The theorem at a history of three points, 10, 12 and 9: the change is -1 and -10
  percent, in both variants; with a current price of 0 the first variant returns
  \<open>null\<close>.
\<close>

theorem getPriceChange_value_witness:
  "2 \<le> length [\<lparr> date = ''2024-01-01'', open_price = 10, high = 11, low = 9, close = 10, volume = 500 \<rparr>,
                \<lparr> date = ''2024-01-02'', open_price = 10, high = 12, low = 10, close = 12, volume = 700 \<rparr>,
                \<lparr> date = ''2024-01-03'', open_price = 12, high = 12, low = 8, close = 9, volume = 0 \<rparr>]
   \<and> truthy (get_prop [(''currentPrice'', Number 9), (''dayHigh'', Number 12)] ''currentPrice'')
   \<and> truthy (get_prop [(''currentPrice'', Number 9), (''dayHigh'', Number 12)] ''dayHigh'')
   \<and> getPriceChange2
     (Some \<lparr> symbol = ''TCS.NS'',
             info = Some [(''currentPrice'', Number 9), (''dayHigh'', Number 12)],
             history =
               [\<lparr> date = ''2024-01-01'', open_price = 10, high = 11, low = 9, close = 10, volume = 500 \<rparr>,
                \<lparr> date = ''2024-01-02'', open_price = 10, high = 12, low = 10, close = 12, volume = 700 \<rparr>,
                \<lparr> date = ''2024-01-03'', open_price = 12, high = 12, low = 8, close = 9, volume = 0 \<rparr>] \<rparr>)
     = Inr (PCObject \<lparr> change = - 1, percent = Finite (- 10) \<rparr>)
   \<and> getPriceChange1
     (Some \<lparr> symbol = ''TCS.NS'',
             info = Some [(''currentPrice'', Number 9), (''dayHigh'', Number 12)],
             history =
               [\<lparr> date = ''2024-01-01'', open_price = 10, high = 11, low = 9, close = 10, volume = 500 \<rparr>,
                \<lparr> date = ''2024-01-02'', open_price = 10, high = 12, low = 10, close = 12, volume = 700 \<rparr>,
                \<lparr> date = ''2024-01-03'', open_price = 12, high = 12, low = 8, close = 9, volume = 0 \<rparr>] \<rparr>)
     = Inr (PCObject \<lparr> change = - 1, percent = Finite (- 10) \<rparr>)
   \<and> \<not> truthy (get_prop [(''currentPrice'', Number 0), (''dayHigh'', Number 12)] ''currentPrice'')
   \<and> getPriceChange1
     (Some \<lparr> symbol = ''TCS.NS'',
             info = Some [(''currentPrice'', Number 0), (''dayHigh'', Number 12)],
             history =
               [\<lparr> date = ''2024-01-01'', open_price = 10, high = 11, low = 9, close = 10, volume = 500 \<rparr>,
                \<lparr> date = ''2024-01-02'', open_price = 10, high = 12, low = 10, close = 12, volume = 700 \<rparr>,
                \<lparr> date = ''2024-01-03'', open_price = 12, high = 12, low = 8, close = 9, volume = 0 \<rparr>] \<rparr>)
     = Inr PCNull"
  using getPriceChange_value
    [of "\<lparr> symbol = ''TCS.NS'',
             info = Some [(''currentPrice'', Number 9), (''dayHigh'', Number 12)],
             history =
               [\<lparr> date = ''2024-01-01'', open_price = 10, high = 11, low = 9, close = 10, volume = 500 \<rparr>,
                \<lparr> date = ''2024-01-02'', open_price = 10, high = 12, low = 10, close = 12, volume = 700 \<rparr>,
                \<lparr> date = ''2024-01-03'', open_price = 12, high = 12, low = 8, close = 9, volume = 0 \<rparr>] \<rparr>"
        "[(''currentPrice'', Number 9), (''dayHigh'', Number 12)]"]
    getPriceChange_value
    [of "\<lparr> symbol = ''TCS.NS'',
             info = Some [(''currentPrice'', Number 0), (''dayHigh'', Number 12)],
             history =
               [\<lparr> date = ''2024-01-01'', open_price = 10, high = 11, low = 9, close = 10, volume = 500 \<rparr>,
                \<lparr> date = ''2024-01-02'', open_price = 10, high = 12, low = 10, close = 12, volume = 700 \<rparr>,
                \<lparr> date = ''2024-01-03'', open_price = 12, high = 12, low = 8, close = 9, volume = 0 \<rparr>] \<rparr>"
        "[(''currentPrice'', Number 0), (''dayHigh'', Number 12)]"]
  by (simp add: get_prop_def)

text \<open>
  Claim C2 as it is written fails in the first variant: with \<open>currentPrice\<close> missing
  from \<open>info\<close> it returns \<open>null\<close> for a history of two points, where the second variant
  derives a change of 2 and 20 percent.
\<close>

theorem getPriceChange1_null_counterexample:
  "getPriceChange1
     (Some \<lparr> symbol = ''TCS.NS'',
             info = Some [(''dayHigh'', Number 12), (''sector'', Str ''Technology'')],
             history =
               [\<lparr> date = ''2024-01-01'', open_price = 10, high = 11, low = 9, close = 10, volume = 500 \<rparr>,
                \<lparr> date = ''2024-01-02'', open_price = 10, high = 12, low = 10, close = 12, volume = 700 \<rparr>] \<rparr>)
   = Inr PCNull
   \<and> getPriceChange2
     (Some \<lparr> symbol = ''TCS.NS'',
             info = Some [(''dayHigh'', Number 12), (''sector'', Str ''Technology'')],
             history =
               [\<lparr> date = ''2024-01-01'', open_price = 10, high = 11, low = 9, close = 10, volume = 500 \<rparr>,
                \<lparr> date = ''2024-01-02'', open_price = 10, high = 12, low = 10, close = 12, volume = 700 \<rparr>] \<rparr>)
   = Inr (PCObject \<lparr> change = 2, percent = Finite 20 \<rparr>)"
  by (simp add: getPriceChange1_def getPriceChange2_def get_prop_def period_change_def)

text \<open>
  Claim C3, as the code has it.  Under the conditions of the theorem above the sign of
  the derived change is the sign of the last close minus the first close, and the
  badge has the class \<open>positive\<close> exactly when that difference is not negative.  The
  first variant derives that change when \<open>info.currentPrice\<close> and \<open>info.dayHigh\<close> are
  both truthy; when one of them is not, it returns \<open>null\<close> and no badge is rendered.
\<close>

theorem price_change_sign:
  assumes "2 \<le> length (history sd)" and "info sd = Some i"
  shows "\<exists>pc b. getPriceChange2 (Some sd) = Inr (PCObject pc)
           \<and> (truthy (get_prop i ''currentPrice'') \<and> truthy (get_prop i ''dayHigh'')
                \<longrightarrow> getPriceChange1 (Some sd) = Inr (PCObject pc))
           \<and> (\<not> (truthy (get_prop i ''currentPrice'') \<and> truthy (get_prop i ''dayHigh''))
                \<longrightarrow> getPriceChange1 (Some sd) = Inr PCNull
                    \<and> priceBadge H p PCNull = NoBadge)
           \<and> sgn (change pc) = sgn (close (last (history sd)) - close (hd (history sd)))
           \<and> priceBadge H p (PCObject pc) = Badge b
           \<and> className b =
               (if 0 \<le> close (last (history sd)) - close (hd (history sd))
                then ''price-change positive'' else ''price-change negative'')"
proof -
  let ?pc = "period_change (history sd)"
  let ?b = "\<lparr> className = ''price-change '' @ (if change ?pc \<ge> 0 then ''positive'' else ''negative''),
             badge_text = (if change ?pc \<ge> 0 then ''+'' else [])
                          @ toFixed2 H (Finite (change ?pc))
                          @ '' ('' @ toFixed2 H (percent ?pc) @ ''%)'',
             badge_period = ''('' @ p @ '')'' \<rparr>"
  have len: "\<not> length (history sd) < 2" using assms(1) by simp
  have v2: "getPriceChange2 (Some sd) = Inr (PCObject ?pc)"
    by (simp add: getPriceChange2_def assms(2) len)
  have v1: "truthy (get_prop i ''currentPrice'') \<and> truthy (get_prop i ''dayHigh'')
                \<longrightarrow> getPriceChange1 (Some sd) = Inr (PCObject ?pc)"
    by (simp add: getPriceChange1_def assms(2) len)
  have none: "\<not> (truthy (get_prop i ''currentPrice'') \<and> truthy (get_prop i ''dayHigh''))
                \<longrightarrow> getPriceChange1 (Some sd) = Inr PCNull
                    \<and> priceBadge H p PCNull = NoBadge"
    by (auto simp: getPriceChange1_def assms(2))
  have ch: "change ?pc = close (last (history sd)) - close (hd (history sd))"
    by (simp add: period_change_first_last [OF assms(1)])
  have sg: "sgn (change ?pc) = sgn (close (last (history sd)) - close (hd (history sd)))"
    by (simp only: ch)
  have b: "priceBadge H p (PCObject ?pc) = Badge ?b"
    by (simp only: priceBadge.simps)
  have cls: "className ?b =
               (if 0 \<le> close (last (history sd)) - close (hd (history sd))
                then ''price-change positive'' else ''price-change negative'')"
    by (simp add: ch)
  show ?thesis
    apply (rule exI [of _ ?pc])
    apply (rule exI [of _ ?b])
    apply (intro conjI)
         apply (rule v2)
        apply (rule v1)
       apply (rule none)
      apply (rule sg)
     apply (rule b)
    apply (rule cls)
    done
qed

text \<open>
  The theorem at a history falling from 50 to 45: both variants derive -5, and the
  badge is negative; with a day high of \<open>null\<close> the first variant renders no badge.
\<close>

theorem price_change_sign_witness:
  "2 \<le> length [\<lparr> date = ''2024-02-01'', open_price = 50, high = 52, low = 49, close = 50, volume = 90 \<rparr>,
                \<lparr> date = ''2024-02-02'', open_price = 50, high = 51, low = 44, close = 45, volume = 80 \<rparr>]
   \<and> truthy (get_prop [(''currentPrice'', Number 45), (''dayHigh'', Number 51)] ''currentPrice'')
   \<and> truthy (get_prop [(''currentPrice'', Number 45), (''dayHigh'', Number 51)] ''dayHigh'')
   \<and> getPriceChange1
       (Some \<lparr> symbol = ''INFY.NS'',
               info = Some [(''currentPrice'', Number 45), (''dayHigh'', Number 51)],
               history =
                 [\<lparr> date = ''2024-02-01'', open_price = 50, high = 52, low = 49, close = 50, volume = 90 \<rparr>,
                  \<lparr> date = ''2024-02-02'', open_price = 50, high = 51, low = 44, close = 45, volume = 80 \<rparr>] \<rparr>)
     = Inr (PCObject \<lparr> change = - 5, percent = Finite (- 10) \<rparr>)
   \<and> getPriceChange2
       (Some \<lparr> symbol = ''INFY.NS'',
               info = Some [(''currentPrice'', Number 45), (''dayHigh'', Number 51)],
               history =
                 [\<lparr> date = ''2024-02-01'', open_price = 50, high = 52, low = 49, close = 50, volume = 90 \<rparr>,
                  \<lparr> date = ''2024-02-02'', open_price = 50, high = 51, low = 44, close = 45, volume = 80 \<rparr>] \<rparr>)
     = Inr (PCObject \<lparr> change = - 5, percent = Finite (- 10) \<rparr>)
   \<and> priceBadge plain_host ''1mo'' (PCObject \<lparr> change = - 5, percent = Finite (- 10) \<rparr>)
     = Badge \<lparr> className = ''price-change negative'', badge_text = ''#.## (#.##%)'',
               badge_period = ''(1mo)'' \<rparr>
   \<and> \<not> truthy (get_prop [(''currentPrice'', Number 45), (''dayHigh'', Null)] ''dayHigh'')
   \<and> getPriceChange1
       (Some \<lparr> symbol = ''INFY.NS'',
               info = Some [(''currentPrice'', Number 45), (''dayHigh'', Null)],
               history =
                 [\<lparr> date = ''2024-02-01'', open_price = 50, high = 52, low = 49, close = 50, volume = 90 \<rparr>,
                  \<lparr> date = ''2024-02-02'', open_price = 50, high = 51, low = 44, close = 45, volume = 80 \<rparr>] \<rparr>)
     = Inr PCNull
   \<and> priceBadge plain_host ''1mo'' PCNull = NoBadge"
proof -
  have e1: "getPriceChange1
       (Some \<lparr> symbol = ''INFY.NS'',
               info = Some [(''currentPrice'', Number 45), (''dayHigh'', Number 51)],
               history =
                 [\<lparr> date = ''2024-02-01'', open_price = 50, high = 52, low = 49, close = 50, volume = 90 \<rparr>,
                  \<lparr> date = ''2024-02-02'', open_price = 50, high = 51, low = 44, close = 45, volume = 80 \<rparr>] \<rparr>)
     = Inr (PCObject \<lparr> change = - 5, percent = Finite (- 10) \<rparr>)"
    by (simp add: get_prop_def getPriceChange1_def period_change_def)
  have e2: "getPriceChange2
       (Some \<lparr> symbol = ''INFY.NS'',
               info = Some [(''currentPrice'', Number 45), (''dayHigh'', Number 51)],
               history =
                 [\<lparr> date = ''2024-02-01'', open_price = 50, high = 52, low = 49, close = 50, volume = 90 \<rparr>,
                  \<lparr> date = ''2024-02-02'', open_price = 50, high = 51, low = 44, close = 45, volume = 80 \<rparr>] \<rparr>)
     = Inr (PCObject \<lparr> change = - 5, percent = Finite (- 10) \<rparr>)"
    by (simp add: getPriceChange2_def period_change_def)
  have e3: "priceBadge plain_host ''1mo'' (PCObject \<lparr> change = - 5, percent = Finite (- 10) \<rparr>)
     = Badge \<lparr> className = ''price-change negative'', badge_text = ''#.## (#.##%)'',
               badge_period = ''(1mo)'' \<rparr>"
    by (simp add: plain_host_def)
  have e4: "truthy (get_prop [(''currentPrice'', Number 45), (''dayHigh'', Number 51)] ''currentPrice'')
      \<and> truthy (get_prop [(''currentPrice'', Number 45), (''dayHigh'', Number 51)] ''dayHigh'')"
    by (simp add: get_prop_def)
  from price_change_sign
    [of "\<lparr> symbol = ''INFY.NS'',
               info = Some [(''currentPrice'', Number 45), (''dayHigh'', Number 51)],
               history =
                 [\<lparr> date = ''2024-02-01'', open_price = 50, high = 52, low = 49, close = 50, volume = 90 \<rparr>,
                  \<lparr> date = ''2024-02-02'', open_price = 50, high = 51, low = 44, close = 45, volume = 80 \<rparr>] \<rparr>"
        "[(''currentPrice'', Number 45), (''dayHigh'', Number 51)]" plain_host "''1mo''"]
  have e5: "\<exists>pc b. priceBadge plain_host ''1mo'' (PCObject pc) = Badge b" by simp
  have e6: "\<not> truthy (get_prop [(''currentPrice'', Number 45), (''dayHigh'', Null)] ''dayHigh'')"
    by (simp add: get_prop_def)
  from price_change_sign
    [of "\<lparr> symbol = ''INFY.NS'',
               info = Some [(''currentPrice'', Number 45), (''dayHigh'', Null)],
               history =
                 [\<lparr> date = ''2024-02-01'', open_price = 50, high = 52, low = 49, close = 50, volume = 90 \<rparr>,
                  \<lparr> date = ''2024-02-02'', open_price = 50, high = 51, low = 44, close = 45, volume = 80 \<rparr>] \<rparr>"
        "[(''currentPrice'', Number 45), (''dayHigh'', Null)]" plain_host "''1mo''"]
  have e7: "getPriceChange1
       (Some \<lparr> symbol = ''INFY.NS'',
               info = Some [(''currentPrice'', Number 45), (''dayHigh'', Null)],
               history =
                 [\<lparr> date = ''2024-02-01'', open_price = 50, high = 52, low = 49, close = 50, volume = 90 \<rparr>,
                  \<lparr> date = ''2024-02-02'', open_price = 50, high = 51, low = 44, close = 45, volume = 80 \<rparr>] \<rparr>)
     = Inr PCNull"
    by (auto simp: get_prop_def)
  from e1 e2 e3 e4 e5 e6 e7 show ?thesis by simp
qed

text \<open>
  Claim C3 as it is written fails in the first variant: with \<open>dayHigh\<close> missing from
  \<open>info\<close> a history falling from 50 to 45 gives \<open>null\<close> and no badge at all, where the
  second variant derives -5.
\<close>

theorem price_badge_missing_counterexample:
  "getPriceChange1
     (Some \<lparr> symbol = ''INFY.NS'',
             info = Some [(''currentPrice'', Number 45), (''sector'', Str ''Technology'')],
             history =
               [\<lparr> date = ''2024-02-01'', open_price = 50, high = 52, low = 49, close = 50, volume = 90 \<rparr>,
                \<lparr> date = ''2024-02-02'', open_price = 50, high = 51, low = 47, close = 48, volume = 85 \<rparr>,
                \<lparr> date = ''2024-02-05'', open_price = 48, high = 48, low = 44, close = 45, volume = 80 \<rparr>] \<rparr>)
   = Inr PCNull
   \<and> priceBadge plain_host ''1mo'' PCNull = NoBadge
   \<and> getPriceChange2
     (Some \<lparr> symbol = ''INFY.NS'',
             info = Some [(''currentPrice'', Number 45), (''sector'', Str ''Technology'')],
             history =
               [\<lparr> date = ''2024-02-01'', open_price = 50, high = 52, low = 49, close = 50, volume = 90 \<rparr>,
                \<lparr> date = ''2024-02-02'', open_price = 50, high = 51, low = 47, close = 48, volume = 85 \<rparr>,
                \<lparr> date = ''2024-02-05'', open_price = 48, high = 48, low = 44, close = 45, volume = 80 \<rparr>] \<rparr>)
   = Inr (PCObject \<lparr> change = - 5, percent = Finite (- 10) \<rparr>)"
  by (simp add: getPriceChange1_def getPriceChange2_def get_prop_def period_change_def)

text \<open>
  Claim C8.  In the first variant \<open>getPriceChange\<close> returns \<open>null\<close> whenever
  \<open>currentPrice\<close> or \<open>dayHigh\<close> is absent from \<open>info\<close>, whatever the history, and no
  badge is rendered; the second variant derives the change from the same data when the
  history has two points, and the derived object depends on the closes alone.
\<close>

theorem getPriceChange1_absent_field:
  assumes "info sd = Some i"
    and "map_of i ''currentPrice'' = None \<or> map_of i ''dayHigh'' = None"
  shows "getPriceChange1 (Some sd) = Inr PCNull
       \<and> priceBadge H p PCNull = NoBadge
       \<and> (2 \<le> length (history sd)
            \<longrightarrow> getPriceChange2 (Some sd) = Inr (PCObject (period_change (history sd))))
       \<and> (map close h = map close (history sd)
            \<longrightarrow> period_change h = period_change (history sd))"
proof -
  from assms(2) have "\<not> truthy (get_prop i ''currentPrice'') \<or> \<not> truthy (get_prop i ''dayHigh'')"
    by (auto simp: get_prop_def)
  then have null: "getPriceChange1 (Some sd) = Inr PCNull"
    by (auto simp: getPriceChange1_def assms(1))
  have v2: "2 \<le> length (history sd)
            \<longrightarrow> getPriceChange2 (Some sd) = Inr (PCObject (period_change (history sd)))"
    by (simp add: getPriceChange2_def assms(1))
  have closes: "map close h = map close (history sd)
            \<longrightarrow> period_change h = period_change (history sd)"
    using period_change_closes [of h "history sd"] by blast
  have badge: "priceBadge H p PCNull = NoBadge" by simp
  from null badge v2 closes show ?thesis by blast
qed

text \<open>
  The theorem at an \<open>info\<close> without \<open>currentPrice\<close> and a history rising from 50 to 55.
\<close>

theorem getPriceChange1_absent_field_witness:
  "map_of [(''dayHigh'', Number 51), (''dayLow'', Number 44)] ''currentPrice'' = None
   \<and> 2 \<le> length [\<lparr> date = ''2024-02-01'', open_price = 50, high = 52, low = 49, close = 50, volume = 90 \<rparr>,
                   \<lparr> date = ''2024-02-02'', open_price = 50, high = 51, low = 44, close = 55, volume = 80 \<rparr>]
   \<and> getPriceChange1
       (Some \<lparr> symbol = ''SBIN.NS'',
               info = Some [(''dayHigh'', Number 51), (''dayLow'', Number 44)],
               history =
                 [\<lparr> date = ''2024-02-01'', open_price = 50, high = 52, low = 49, close = 50, volume = 90 \<rparr>,
                  \<lparr> date = ''2024-02-02'', open_price = 50, high = 51, low = 44, close = 55, volume = 80 \<rparr>] \<rparr>)
     = Inr PCNull
   \<and> getPriceChange2
       (Some \<lparr> symbol = ''SBIN.NS'',
               info = Some [(''dayHigh'', Number 51), (''dayLow'', Number 44)],
               history =
                 [\<lparr> date = ''2024-02-01'', open_price = 50, high = 52, low = 49, close = 50, volume = 90 \<rparr>,
                  \<lparr> date = ''2024-02-02'', open_price = 50, high = 51, low = 44, close = 55, volume = 80 \<rparr>] \<rparr>)
     = Inr (PCObject \<lparr> change = 5, percent = Finite 10 \<rparr>)"
proof -
  have e: "period_change
             [\<lparr> date = ''2024-02-01'', open_price = 50, high = 52, low = 49, close = 50, volume = 90 \<rparr>,
              \<lparr> date = ''2024-02-02'', open_price = 50, high = 51, low = 44, close = 55, volume = 80 \<rparr>]
           = \<lparr> change = 5, percent = Finite 10 \<rparr>"
    by (simp add: period_change_def)
  show ?thesis
    using getPriceChange1_absent_field
      [of "\<lparr> symbol = ''SBIN.NS'',
               info = Some [(''dayHigh'', Number 51), (''dayLow'', Number 44)],
               history =
                 [\<lparr> date = ''2024-02-01'', open_price = 50, high = 52, low = 49, close = 50, volume = 90 \<rparr>,
                  \<lparr> date = ''2024-02-02'', open_price = 50, high = 51, low = 44, close = 55, volume = 80 \<rparr>] \<rparr>"
          "[(''dayHigh'', Number 51), (''dayLow'', Number 44)]"]
    by (simp add: e)
qed

section \<open>The sidebar filter and the custom symbol\<close>


lemma is_upper_code: "is_upper c \<longleftrightarrow> 65 \<le> (of_char c :: nat) \<and> (of_char c :: nat) \<le> 90"
  by (simp add: is_upper_def less_eq_char_def)

lemma of_char_lower_char:
  "(of_char (lower_char c) :: nat) = (if is_upper c then of_char c + 32 else of_char c)"
proof (cases "is_upper c")
  case True
  then have "(of_char c :: nat) + 32 < 256" by (simp add: is_upper_code)
  then have "of_char (char_of (of_char c + (32::nat))) = (of_char c :: nat) + 32"
    by simp
  moreover have "lower_char c = char_of (of_char c + (32::nat))"
    using True by (simp add: lower_char_def is_upper_def)
  ultimately show ?thesis using True by simp
next
  case False
  then have "lower_char c = c" unfolding lower_char_def is_upper_def by auto
  with False show ?thesis by simp
qed

lemma lower_char_eq: "lower_char c = lower_char d \<longleftrightarrow> same_ignoring_case c d"
proof -
  have "lower_char c = lower_char d
          \<longleftrightarrow> (of_char (lower_char c) :: nat) = of_char (lower_char d)"
    by simp
  also have "\<dots> \<longleftrightarrow> same_ignoring_case c d"
    unfolding of_char_lower_char same_ignoring_case_def
    using of_char_eq_iff [of c d, where ?'a = nat]
    by (auto simp: is_upper_code)
  finally show ?thesis .
qed

lemma starts_with_nth:
  "starts_with hay needle \<longleftrightarrow>
     length needle \<le> length hay \<and> (\<forall>i<length needle. hay ! i = needle ! i)"
proof (induction hay needle rule: starts_with.induct)
  case (1 hay)
  show ?case by simp
next
  case (2 n ns)
  show ?case by simp
next
  case (3 h hs n ns)
  show ?case
    unfolding starts_with.simps "3.IH"
    by (auto simp: nth_Cons split: nat.splits)
qed

lemma includes_str_nth:
  "includes_str hay needle \<longleftrightarrow>
     (\<exists>k. k + length needle \<le> length hay \<and> (\<forall>i<length needle. hay ! (k + i) = needle ! i))"
proof (induction hay)
  case Nil
  show ?case by auto
next
  case (Cons h hs)
  have "(\<exists>k. k + length needle \<le> length (h # hs)
            \<and> (\<forall>i<length needle. (h # hs) ! (k + i) = needle ! i))
        \<longleftrightarrow> (length needle \<le> length (h # hs) \<and> (\<forall>i<length needle. (h # hs) ! i = needle ! i))
          \<or> (\<exists>k. k + length needle \<le> length hs \<and> (\<forall>i<length needle. hs ! (k + i) = needle ! i))"
    (is "?L \<longleftrightarrow> ?A \<or> ?B")
  proof
    assume ?L
    then obtain k where k: "k + length needle \<le> length (h # hs)"
      "\<forall>i<length needle. (h # hs) ! (k + i) = needle ! i" by blast
    show "?A \<or> ?B"
    proof (cases k)
      case 0
      with k show ?thesis by simp
    next
      case (Suc k')
      with k have "k' + length needle \<le> length hs"
        "\<forall>i<length needle. hs ! (k' + i) = needle ! i" by simp_all
      then show ?thesis by blast
    qed
  next
    assume "?A \<or> ?B"
    then show ?L
    proof
      assume ?A
      then have "0 + length needle \<le> length (h # hs)
            \<and> (\<forall>i<length needle. (h # hs) ! (0 + i) = needle ! i)" by simp
      then show ?L by blast
    next
      assume ?B
      then obtain k where "k + length needle \<le> length hs"
        "\<forall>i<length needle. hs ! (k + i) = needle ! i" by blast
      then have "Suc k + length needle \<le> length (h # hs)
            \<and> (\<forall>i<length needle. (h # hs) ! (Suc k + i) = needle ! i)" by simp
      then show ?L by blast
    qed
  qed
  then show ?case
    unfolding includes_str.simps Cons.IH starts_with_nth by simp
qed

lemma includes_lower_contains:
  "includes_str (toLowerCase hay) (toLowerCase needle) \<longleftrightarrow> contains_ignoring_case hay needle"
proof -
  have "(\<forall>i<length needle. map lower_char hay ! (k + i) = map lower_char needle ! i)
        \<longleftrightarrow> (\<forall>i<length needle. same_ignoring_case (hay ! (k + i)) (needle ! i))"
    if "k + length needle \<le> length hay" for k
    using that by (simp add: lower_char_eq)
  then show ?thesis
    unfolding includes_str_nth contains_ignoring_case_def toLowerCase_def length_map
    by blast
qed

text \<open>
  Claim C10.  The sidebar lists exactly the fetched stocks whose label or value
  contains the search term case-insensitively, in the order of the fetched list; with
  the empty search term it lists all of them.
\<close>

theorem filteredStocks_case_insensitive:
  "filteredStocks sts term =
     filter (\<lambda>s. contains_ignoring_case (label (deref s)) term
                \<or> contains_ignoring_case (value' (deref s)) term) sts
   \<and> filteredStocks sts [] = sts"
proof -
  have all: "filteredStocks sts term =
     filter (\<lambda>s. contains_ignoring_case (label (deref s)) term
                \<or> contains_ignoring_case (value' (deref s)) term) sts"
    by (simp only: filteredStocks_def includes_lower_contains)
  have "includes_str hay []" for hay
    by (cases hay) simp_all
  then have "filteredStocks sts [] = sts"
    by (simp add: filteredStocks_def toLowerCase_def)
  with all show ?thesis by blast
qed

text \<open>
  The theorem at a list of three stocks: the term \<open>tAt\<close> keeps the one whose label and
  value have \<open>Tat\<close> and \<open>TAT\<close>, and the term \<open>.ns\<close> keeps all, by their values.
\<close>

theorem filteredStocks_case_insensitive_witness:
  "filteredStocks
     [(0, \<lparr> label = ''Reliance Industries'', value' = ''RELIANCE.NS'' \<rparr>),
      (1, \<lparr> label = ''Tata Steel'', value' = ''TATASTEEL.NS'' \<rparr>),
      (2, \<lparr> label = ''Infosys'', value' = ''INFY.NS'' \<rparr>)] ''tAt''
   = [(1, \<lparr> label = ''Tata Steel'', value' = ''TATASTEEL.NS'' \<rparr>)]
   \<and> contains_ignoring_case ''Tata Steel'' ''tAt''
   \<and> \<not> contains_ignoring_case ''Infosys'' ''tAt''
   \<and> filteredStocks
     [(0, \<lparr> label = ''Reliance Industries'', value' = ''RELIANCE.NS'' \<rparr>),
      (1, \<lparr> label = ''Tata Steel'', value' = ''TATASTEEL.NS'' \<rparr>),
      (2, \<lparr> label = ''Infosys'', value' = ''INFY.NS'' \<rparr>)] []
   = [(0, \<lparr> label = ''Reliance Industries'', value' = ''RELIANCE.NS'' \<rparr>),
      (1, \<lparr> label = ''Tata Steel'', value' = ''TATASTEEL.NS'' \<rparr>),
      (2, \<lparr> label = ''Infosys'', value' = ''INFY.NS'' \<rparr>)]"
proof -
  have l: "toLowerCase ''tAt'' = ''tat''"
      "toLowerCase ''Reliance Industries'' = ''reliance industries''"
      "toLowerCase ''RELIANCE.NS'' = ''reliance.ns''"
      "toLowerCase ''Tata Steel'' = ''tata steel''"
      "toLowerCase ''TATASTEEL.NS'' = ''tatasteel.ns''"
      "toLowerCase ''Infosys'' = ''infosys''"
      "toLowerCase ''INFY.NS'' = ''infy.ns''"
    by code_simp+
  have e: "filteredStocks
     [(0, \<lparr> label = ''Reliance Industries'', value' = ''RELIANCE.NS'' \<rparr>),
      (1, \<lparr> label = ''Tata Steel'', value' = ''TATASTEEL.NS'' \<rparr>),
      (2, \<lparr> label = ''Infosys'', value' = ''INFY.NS'' \<rparr>)] ''tAt''
   = [(1, \<lparr> label = ''Tata Steel'', value' = ''TATASTEEL.NS'' \<rparr>)]"
    by (simp add: filteredStocks_def deref_def l)
  have c1: "contains_ignoring_case ''Tata Steel'' ''tAt''"
    unfolding includes_lower_contains [symmetric] l by simp
  have c2: "\<not> contains_ignoring_case ''Infosys'' ''tAt''"
    unfolding includes_lower_contains [symmetric] l by simp
  from filteredStocks_case_insensitive
    [of "[(0, \<lparr> label = ''Reliance Industries'', value' = ''RELIANCE.NS'' \<rparr>),
          (1, \<lparr> label = ''Tata Steel'', value' = ''TATASTEEL.NS'' \<rparr>),
          (2, \<lparr> label = ''Infosys'', value' = ''INFY.NS'' \<rparr>)]" "''tAt''"]
  have "filteredStocks
     [(0, \<lparr> label = ''Reliance Industries'', value' = ''RELIANCE.NS'' \<rparr>),
      (1, \<lparr> label = ''Tata Steel'', value' = ''TATASTEEL.NS'' \<rparr>),
      (2, \<lparr> label = ''Infosys'', value' = ''INFY.NS'' \<rparr>)] []
   = [(0, \<lparr> label = ''Reliance Industries'', value' = ''RELIANCE.NS'' \<rparr>),
      (1, \<lparr> label = ''Tata Steel'', value' = ''TATASTEEL.NS'' \<rparr>),
      (2, \<lparr> label = ''Infosys'', value' = ''INFY.NS'' \<rparr>)]"
    by (rule conjunct2)
  with e c1 c2 show ?thesis by blast
qed

lemma fetchEffect_selectedStock: "selectedStock (fst (fetchEffect s)) = selectedStock s"
  by (simp add: fetchEffect_def split: option.splits)

lemma fetchEffect_period: "period (fst (fetchEffect s)) = period s"
  by (simp add: fetchEffect_def split: option.splits)

lemma step_selectedStock: "selectedStock (fst (step a ev s)) = selectedStock (handler a ev s)"
  by (simp add: step_def Let_def fetchEffect_selectedStock)

lemma step_period: "period (fst (step a ev s)) = period (handler a ev s)"
  by (simp add: step_def Let_def fetchEffect_period)

text \<open>
  Claim C7.  Submitting a non-empty custom symbol selects the stock whose label and
  value are both the submitted text in upper case, whatever the text is: nothing else
  is checked, and nothing else is done to the text.  The selection is still that one
  after the render and the effect that follow the submit.
\<close>

theorem handleCustomSubmit_selects_upper_case:
  assumes "customStock s \<noteq> []"
  shows "selectedStock (handleCustomSubmit a s) =
           Some (a, \<lparr> label = toUpperCase (customStock s),
                      value' = toUpperCase (customStock s) \<rparr>)
       \<and> selectedStock (fst (step a CustomSubmit s)) =
           Some (a, \<lparr> label = toUpperCase (customStock s),
                      value' = toUpperCase (customStock s) \<rparr>)
       \<and> toUpperCase (customStock s) = map upper_char (customStock s)"
proof -
  have sel: "selectedStock (handleCustomSubmit a s) =
           Some (a, \<lparr> label = toUpperCase (customStock s),
                      value' = toUpperCase (customStock s) \<rparr>)"
    using assms by (simp add: handleCustomSubmit_def Let_def)
  have "selectedStock (fst (step a CustomSubmit s)) = selectedStock (handleCustomSubmit a s)"
    by (simp add: step_selectedStock)
  with sel show ?thesis by (simp add: toUpperCase_def)
qed

text \<open>
  The theorem at the text \<open>tatasteel.ns\<close>, typed in lower case, and at a text that is no
  ticker at all.
\<close>

theorem handleCustomSubmit_selects_upper_case_witness:
  "customStock (initial_state\<lparr> customStock := ''tatasteel.ns'' \<rparr>) \<noteq> []
   \<and> selectedStock (handleCustomSubmit 7 (initial_state\<lparr> customStock := ''tatasteel.ns'' \<rparr>))
     = Some (7, \<lparr> label = ''TATASTEEL.NS'', value' = ''TATASTEEL.NS'' \<rparr>)
   \<and> selectedStock (fst (step 7 CustomSubmit (initial_state\<lparr> customStock := ''tatasteel.ns'' \<rparr>)))
     = Some (7, \<lparr> label = ''TATASTEEL.NS'', value' = ''TATASTEEL.NS'' \<rparr>)
   \<and> selectedStock (handleCustomSubmit 8 (initial_state\<lparr> customStock := '' ?x y!'' \<rparr>))
     = Some (8, \<lparr> label = '' ?X Y!'', value' = '' ?X Y!'' \<rparr>)"
proof -
  have u: "toUpperCase ''tatasteel.ns'' = ''TATASTEEL.NS''" "toUpperCase '' ?x y!'' = '' ?X Y!''"
    by code_simp+
  show ?thesis
    using handleCustomSubmit_selects_upper_case
        [of "initial_state\<lparr> customStock := ''tatasteel.ns'' \<rparr>" 7]
      handleCustomSubmit_selects_upper_case
        [of "initial_state\<lparr> customStock := '' ?x y!'' \<rparr>" 8]
    by (simp add: u)
qed

section \<open>Selection, period and the fetch effect\<close>

lemma fetchEffect_stockData: "stockData (fst (fetchEffect s)) = stockData s"
  by (simp add: fetchEffect_def split: option.splits)

lemma step_stockData: "stockData (fst (step a ev s)) = stockData (handler a ev s)"
  by (simp add: step_def Let_def fetchEffect_stockData)

lemma handler_keeps_selection:
  "selectedStock s \<noteq> None \<Longrightarrow> selectedStock (handler a ev s) \<noteq> None"
  by (cases ev) (simp_all add: handleCustomSubmit_def Let_def)

lemma handler_new_selection:
  "selectedStock (handler a ev s) \<noteq> selectedStock s \<Longrightarrow> selectedStock (handler a ev s) \<noteq> None"
  by (cases ev) (auto simp: handleCustomSubmit_def Let_def split: if_splits)

lemma handler_new_period:
  "period (handler a ev s) \<noteq> period s \<Longrightarrow> \<exists>p. ev = PeriodClick p"
  by (cases ev) (auto simp: handleCustomSubmit_def Let_def split: if_splits)

lemma handler_period_click_selection:
  "selectedStock (handler a (PeriodClick p) s) = selectedStock s"
  by simp

lemma handler_new_stockData:
  "stockData (handler a ev s) \<noteq> None \<Longrightarrow> stockData s \<noteq> None \<or> (\<exists>d. ev = StockResponse d)"
  by (cases ev) (auto simp: handleCustomSubmit_def Let_def split: if_splits)

lemma step_sent:
  "snd (step a ev s) \<noteq> [] \<Longrightarrow> selectedStock (handler a ev s) \<noteq> None"
  by (auto simp: step_def Let_def fetchEffect_def split: if_splits option.splits)

lemma app_client_step: "app (fst (client_step ev c)) = fst (step (next_address c) ev (app c))"
  by (simp add: client_step_def split: prod.splits)

lemma sent_client_step: "snd (client_step ev c) = snd (step (next_address c) ev (app c))"
  by (simp add: client_step_def split: prod.splits)

lemma stock_in_flight_client_step:
  "stock_in_flight (fst (client_step ev c)) =
     stock_in_flight c - snd (answered ev) + length (snd (step (next_address c) ev (app c)))"
  by (simp add: client_step_def split: prod.splits)

text \<open>
  Stock data is shown, or a stock request is in flight, only when a stock is selected:
  the selection never goes back to \<open>null\<close>, and the effect sends nothing without one.
\<close>

lemma reachable_selected:
  assumes "reachable c"
  shows "stockData (app c) \<noteq> None \<or> 0 < stock_in_flight c \<longrightarrow> selectedStock (app c) \<noteq> None"
  using assms
proof (induction rule: reachable.induct)
  case reachable_mounted
  show ?case by (simp add: mounted_def initial_state_def)
next
  case (reachable_step c ev)
  let ?a = "next_address c"
  let ?c' = "fst (client_step ev c)"
  have sel': "selectedStock (app ?c') = selectedStock (handler ?a ev (app c))"
    by (simp add: app_client_step step_selectedStock)
  show ?case
  proof (cases "selectedStock (app c) = None")
    case False
    then show ?thesis
      unfolding sel' by (simp add: handler_keeps_selection)
  next
    case True
    with reachable_step.IH have idle: "stockData (app c) = None" "stock_in_flight c = 0"
      by auto
    show ?thesis
    proof
      assume "stockData (app ?c') \<noteq> None \<or> 0 < stock_in_flight ?c'"
      then show "selectedStock (app ?c') \<noteq> None"
      proof
        assume "stockData (app ?c') \<noteq> None"
        then have "stockData (handler ?a ev (app c)) \<noteq> None"
          by (simp add: app_client_step step_stockData)
        from handler_new_stockData [OF this] idle(1)
        obtain d where "ev = StockResponse d" by blast
        with reachable_step.hyps(2) idle(2) show ?thesis by simp
      next
        assume "0 < stock_in_flight ?c'"
        then have "snd (step ?a ev (app c)) \<noteq> []"
          using idle(2) by (simp add: stock_in_flight_client_step)
        from step_sent [OF this] show ?thesis
          unfolding sel' .
      qed
    qed
  qed
qed

text \<open>
  Claim C6.  In every state the client can reach, an event that changes the selected
  stock or the selected period is followed by one new quote and history request, for
  the stock and period now selected, and leaves the financial statement view hidden:
  \<open>showFinancials\<close> is false, so the \<open>Financials\<close> component is unmounted and what it had
  shown is gone.
\<close>

theorem selection_change_fetches_and_hides:
  assumes "reachable c" and "enabled ev c"
    and "selectedStock (app (fst (client_step ev c))) \<noteq> selectedStock (app c)
         \<or> period (app (fst (client_step ev c))) \<noteq> period (app c)"
  shows "showFinancials (app (fst (client_step ev c))) = False
       \<and> loading (app (fst (client_step ev c))) = True
       \<and> (\<exists>st. selectedStock (app (fst (client_step ev c))) = Some st
              \<and> snd (client_step ev c) =
                  [GetStock (value' (deref st)) (period (app (fst (client_step ev c))))])"
proof -
  let ?a = "next_address c"
  let ?s = "app c"
  let ?s1 = "handler ?a ev ?s"
  have changed: "deps_changed ?s ?s1"
    using assms(3)
    by (simp add: deps_changed_def app_client_step step_selectedStock step_period)
  then have run: "step ?a ev ?s = fetchEffect ?s1"
    by (simp add: step_def Let_def)
  have "selectedStock ?s1 \<noteq> None"
  proof (cases "selectedStock ?s1 \<noteq> selectedStock ?s")
    case True
    then show ?thesis by (rule handler_new_selection)
  next
    case False
    with changed have "period ?s1 \<noteq> period ?s" by (simp add: deps_changed_def)
    from handler_new_period [OF this] obtain p where ev: "ev = PeriodClick p" ..
    with assms(2) have "stockData ?s \<noteq> None" by simp
    with reachable_selected [OF assms(1)] have "selectedStock ?s \<noteq> None" by simp
    then show ?thesis by (simp add: ev)
  qed
  then obtain st where st: "selectedStock ?s1 = Some st" by blast
  have eff: "fetchEffect ?s1 =
               (?s1\<lparr> loading := True, showFinancials := False \<rparr>,
                [GetStock (value' (deref st)) (period ?s1)])"
    by (simp add: fetchEffect_def st)
  have app': "app (fst (client_step ev c)) = ?s1\<lparr> loading := True, showFinancials := False \<rparr>"
    by (simp add: app_client_step run eff)
  have sent: "snd (client_step ev c) = [GetStock (value' (deref st)) (period ?s1)]"
    by (simp add: sent_client_step run eff)
  show ?thesis
    unfolding app' sent by (simp add: st)
qed

text \<open>
  The theorem at the state reached from the mount by the answer to the stock list
  request (which selects the first stock), the answer to its stock request, and a click
  on the financials button: a click on the period button \<open>5Y\<close> hides the financial
  statements again and requests the selected stock for five years.
\<close>

theorem selection_change_fetches_and_hides_witness:
  "reachable
     \<lparr> app =
         \<lparr> stocks = [(0, \<lparr> label = ''Reliance Industries'', value' = ''RELIANCE.NS'' \<rparr>),
                     (1, \<lparr> label = ''Tata Steel'', value' = ''TATASTEEL.NS'' \<rparr>)],
           selectedStock = Some (0, \<lparr> label = ''Reliance Industries'', value' = ''RELIANCE.NS'' \<rparr>),
           customStock = [],
           stockData = Some
            \<lparr> symbol = ''RELIANCE.NS'', info = Some [(''currentPrice'', Number 12)],
              history = [\<lparr> date = ''2024-01-02'', open_price = 10, high = 12, low = 10,
                           close = 12, volume = 700 \<rparr>] \<rparr>,
           loading = False, searchTerm = [], period = ''1y'',
           showFinancials = True \<rparr>,
       next_address = 2, stocks_in_flight = 0, stock_in_flight = 0 \<rparr>
   \<and> enabled (PeriodClick ''5y'')
     \<lparr> app =
         \<lparr> stocks = [(0, \<lparr> label = ''Reliance Industries'', value' = ''RELIANCE.NS'' \<rparr>),
                     (1, \<lparr> label = ''Tata Steel'', value' = ''TATASTEEL.NS'' \<rparr>)],
           selectedStock = Some (0, \<lparr> label = ''Reliance Industries'', value' = ''RELIANCE.NS'' \<rparr>),
           customStock = [],
           stockData = Some
            \<lparr> symbol = ''RELIANCE.NS'', info = Some [(''currentPrice'', Number 12)],
              history = [\<lparr> date = ''2024-01-02'', open_price = 10, high = 12, low = 10,
                           close = 12, volume = 700 \<rparr>] \<rparr>,
           loading = False, searchTerm = [], period = ''1y'',
           showFinancials = True \<rparr>,
       next_address = 2, stocks_in_flight = 0, stock_in_flight = 0 \<rparr>
   \<and> client_step (PeriodClick ''5y'')
     \<lparr> app =
         \<lparr> stocks = [(0, \<lparr> label = ''Reliance Industries'', value' = ''RELIANCE.NS'' \<rparr>),
                     (1, \<lparr> label = ''Tata Steel'', value' = ''TATASTEEL.NS'' \<rparr>)],
           selectedStock = Some (0, \<lparr> label = ''Reliance Industries'', value' = ''RELIANCE.NS'' \<rparr>),
           customStock = [],
           stockData = Some
            \<lparr> symbol = ''RELIANCE.NS'', info = Some [(''currentPrice'', Number 12)],
              history = [\<lparr> date = ''2024-01-02'', open_price = 10, high = 12, low = 10,
                           close = 12, volume = 700 \<rparr>] \<rparr>,
           loading = False, searchTerm = [], period = ''1y'',
           showFinancials = True \<rparr>,
       next_address = 2, stocks_in_flight = 0, stock_in_flight = 0 \<rparr>
     = (\<lparr> app =
         \<lparr> stocks = [(0, \<lparr> label = ''Reliance Industries'', value' = ''RELIANCE.NS'' \<rparr>),
                     (1, \<lparr> label = ''Tata Steel'', value' = ''TATASTEEL.NS'' \<rparr>)],
           selectedStock = Some (0, \<lparr> label = ''Reliance Industries'', value' = ''RELIANCE.NS'' \<rparr>),
           customStock = [],
           stockData = Some
            \<lparr> symbol = ''RELIANCE.NS'', info = Some [(''currentPrice'', Number 12)],
              history = [\<lparr> date = ''2024-01-02'', open_price = 10, high = 12, low = 10,
                           close = 12, volume = 700 \<rparr>] \<rparr>,
           loading = True, searchTerm = [], period = ''5y'',
           showFinancials = False \<rparr>,
       next_address = 2, stocks_in_flight = 0, stock_in_flight = 1 \<rparr>,
        [GetStock ''RELIANCE.NS'' ''5y''])"
proof -
  have e1: "client_step (StocksResponse
         [\<lparr> label = ''Reliance Industries'', value' = ''RELIANCE.NS'' \<rparr>,
          \<lparr> label = ''Tata Steel'', value' = ''TATASTEEL.NS'' \<rparr>]) mounted
     = (\<lparr> app =
         \<lparr> stocks = [(0, \<lparr> label = ''Reliance Industries'', value' = ''RELIANCE.NS'' \<rparr>),
                     (1, \<lparr> label = ''Tata Steel'', value' = ''TATASTEEL.NS'' \<rparr>)],
           selectedStock = Some (0, \<lparr> label = ''Reliance Industries'', value' = ''RELIANCE.NS'' \<rparr>),
           customStock = [],
           stockData = None,
           loading = True, searchTerm = [], period = ''1y'',
           showFinancials = False \<rparr>,
       next_address = 2, stocks_in_flight = 0, stock_in_flight = 1 \<rparr>,
        [GetStock ''RELIANCE.NS'' ''1y''])"
    by (simp add: client_step_def step_def deps_changed_def fetchEffect_def deref_def allocate_def
        mounted_def initial_state_def)
  have e2: "client_step (StockResponse
         \<lparr> symbol = ''RELIANCE.NS'', info = Some [(''currentPrice'', Number 12)],
          history = [\<lparr> date = ''2024-01-02'', open_price = 10, high = 12, low = 10,
                       close = 12, volume = 700 \<rparr>] \<rparr>)
     \<lparr> app =
         \<lparr> stocks = [(0, \<lparr> label = ''Reliance Industries'', value' = ''RELIANCE.NS'' \<rparr>),
                     (1, \<lparr> label = ''Tata Steel'', value' = ''TATASTEEL.NS'' \<rparr>)],
           selectedStock = Some (0, \<lparr> label = ''Reliance Industries'', value' = ''RELIANCE.NS'' \<rparr>),
           customStock = [],
           stockData = None,
           loading = True, searchTerm = [], period = ''1y'',
           showFinancials = False \<rparr>,
       next_address = 2, stocks_in_flight = 0, stock_in_flight = 1 \<rparr>
     = (\<lparr> app =
         \<lparr> stocks = [(0, \<lparr> label = ''Reliance Industries'', value' = ''RELIANCE.NS'' \<rparr>),
                     (1, \<lparr> label = ''Tata Steel'', value' = ''TATASTEEL.NS'' \<rparr>)],
           selectedStock = Some (0, \<lparr> label = ''Reliance Industries'', value' = ''RELIANCE.NS'' \<rparr>),
           customStock = [],
           stockData = Some
            \<lparr> symbol = ''RELIANCE.NS'', info = Some [(''currentPrice'', Number 12)],
              history = [\<lparr> date = ''2024-01-02'', open_price = 10, high = 12, low = 10,
                           close = 12, volume = 700 \<rparr>] \<rparr>,
           loading = False, searchTerm = [], period = ''1y'',
           showFinancials = False \<rparr>,
       next_address = 2, stocks_in_flight = 0, stock_in_flight = 0 \<rparr>, [])"
    by (simp add: client_step_def step_def deps_changed_def fetchEffect_def deref_def allocate_def
        mounted_def initial_state_def)
  have e3: "client_step FinancialsClick
     \<lparr> app =
         \<lparr> stocks = [(0, \<lparr> label = ''Reliance Industries'', value' = ''RELIANCE.NS'' \<rparr>),
                     (1, \<lparr> label = ''Tata Steel'', value' = ''TATASTEEL.NS'' \<rparr>)],
           selectedStock = Some (0, \<lparr> label = ''Reliance Industries'', value' = ''RELIANCE.NS'' \<rparr>),
           customStock = [],
           stockData = Some
            \<lparr> symbol = ''RELIANCE.NS'', info = Some [(''currentPrice'', Number 12)],
              history = [\<lparr> date = ''2024-01-02'', open_price = 10, high = 12, low = 10,
                           close = 12, volume = 700 \<rparr>] \<rparr>,
           loading = False, searchTerm = [], period = ''1y'',
           showFinancials = False \<rparr>,
       next_address = 2, stocks_in_flight = 0, stock_in_flight = 0 \<rparr>
     = (\<lparr> app =
         \<lparr> stocks = [(0, \<lparr> label = ''Reliance Industries'', value' = ''RELIANCE.NS'' \<rparr>),
                     (1, \<lparr> label = ''Tata Steel'', value' = ''TATASTEEL.NS'' \<rparr>)],
           selectedStock = Some (0, \<lparr> label = ''Reliance Industries'', value' = ''RELIANCE.NS'' \<rparr>),
           customStock = [],
           stockData = Some
            \<lparr> symbol = ''RELIANCE.NS'', info = Some [(''currentPrice'', Number 12)],
              history = [\<lparr> date = ''2024-01-02'', open_price = 10, high = 12, low = 10,
                           close = 12, volume = 700 \<rparr>] \<rparr>,
           loading = False, searchTerm = [], period = ''1y'',
           showFinancials = True \<rparr>,
       next_address = 2, stocks_in_flight = 0, stock_in_flight = 0 \<rparr>, [])"
    by (simp add: client_step_def step_def deps_changed_def fetchEffect_def deref_def allocate_def
        mounted_def initial_state_def)
  have e4: "client_step (PeriodClick ''5y'')
     \<lparr> app =
         \<lparr> stocks = [(0, \<lparr> label = ''Reliance Industries'', value' = ''RELIANCE.NS'' \<rparr>),
                     (1, \<lparr> label = ''Tata Steel'', value' = ''TATASTEEL.NS'' \<rparr>)],
           selectedStock = Some (0, \<lparr> label = ''Reliance Industries'', value' = ''RELIANCE.NS'' \<rparr>),
           customStock = [],
           stockData = Some
            \<lparr> symbol = ''RELIANCE.NS'', info = Some [(''currentPrice'', Number 12)],
              history = [\<lparr> date = ''2024-01-02'', open_price = 10, high = 12, low = 10,
                           close = 12, volume = 700 \<rparr>] \<rparr>,
           loading = False, searchTerm = [], period = ''1y'',
           showFinancials = True \<rparr>,
       next_address = 2, stocks_in_flight = 0, stock_in_flight = 0 \<rparr>
     = (\<lparr> app =
         \<lparr> stocks = [(0, \<lparr> label = ''Reliance Industries'', value' = ''RELIANCE.NS'' \<rparr>),
                     (1, \<lparr> label = ''Tata Steel'', value' = ''TATASTEEL.NS'' \<rparr>)],
           selectedStock = Some (0, \<lparr> label = ''Reliance Industries'', value' = ''RELIANCE.NS'' \<rparr>),
           customStock = [],
           stockData = Some
            \<lparr> symbol = ''RELIANCE.NS'', info = Some [(''currentPrice'', Number 12)],
              history = [\<lparr> date = ''2024-01-02'', open_price = 10, high = 12, low = 10,
                           close = 12, volume = 700 \<rparr>] \<rparr>,
           loading = True, searchTerm = [], period = ''5y'',
           showFinancials = False \<rparr>,
       next_address = 2, stocks_in_flight = 0, stock_in_flight = 1 \<rparr>,
        [GetStock ''RELIANCE.NS'' ''5y''])"
    by (simp add: client_step_def step_def deps_changed_def fetchEffect_def deref_def allocate_def
        mounted_def initial_state_def)
  have r1: "reachable
     \<lparr> app =
         \<lparr> stocks = [(0, \<lparr> label = ''Reliance Industries'', value' = ''RELIANCE.NS'' \<rparr>),
                     (1, \<lparr> label = ''Tata Steel'', value' = ''TATASTEEL.NS'' \<rparr>)],
           selectedStock = Some (0, \<lparr> label = ''Reliance Industries'', value' = ''RELIANCE.NS'' \<rparr>),
           customStock = [],
           stockData = None,
           loading = True, searchTerm = [], period = ''1y'',
           showFinancials = False \<rparr>,
       next_address = 2, stocks_in_flight = 0, stock_in_flight = 1 \<rparr>"
  proof -
    have "reachable (fst (client_step (StocksResponse
         [\<lparr> label = ''Reliance Industries'', value' = ''RELIANCE.NS'' \<rparr>,
          \<lparr> label = ''Tata Steel'', value' = ''TATASTEEL.NS'' \<rparr>]) mounted))"
      by (rule reachable_step [OF reachable_mounted]) (simp add: mounted_def)
    then show ?thesis unfolding e1 fst_conv .
  qed
  have r2: "reachable
     \<lparr> app =
         \<lparr> stocks = [(0, \<lparr> label = ''Reliance Industries'', value' = ''RELIANCE.NS'' \<rparr>),
                     (1, \<lparr> label = ''Tata Steel'', value' = ''TATASTEEL.NS'' \<rparr>)],
           selectedStock = Some (0, \<lparr> label = ''Reliance Industries'', value' = ''RELIANCE.NS'' \<rparr>),
           customStock = [],
           stockData = Some
            \<lparr> symbol = ''RELIANCE.NS'', info = Some [(''currentPrice'', Number 12)],
              history = [\<lparr> date = ''2024-01-02'', open_price = 10, high = 12, low = 10,
                           close = 12, volume = 700 \<rparr>] \<rparr>,
           loading = False, searchTerm = [], period = ''1y'',
           showFinancials = False \<rparr>,
       next_address = 2, stocks_in_flight = 0, stock_in_flight = 0 \<rparr>"
  proof -
    have "reachable (fst (client_step (StockResponse
         \<lparr> symbol = ''RELIANCE.NS'', info = Some [(''currentPrice'', Number 12)],
          history = [\<lparr> date = ''2024-01-02'', open_price = 10, high = 12, low = 10,
                       close = 12, volume = 700 \<rparr>] \<rparr>) 
     \<lparr> app =
         \<lparr> stocks = [(0, \<lparr> label = ''Reliance Industries'', value' = ''RELIANCE.NS'' \<rparr>),
                     (1, \<lparr> label = ''Tata Steel'', value' = ''TATASTEEL.NS'' \<rparr>)],
           selectedStock = Some (0, \<lparr> label = ''Reliance Industries'', value' = ''RELIANCE.NS'' \<rparr>),
           customStock = [],
           stockData = None,
           loading = True, searchTerm = [], period = ''1y'',
           showFinancials = False \<rparr>,
       next_address = 2, stocks_in_flight = 0, stock_in_flight = 1 \<rparr>))"
      by (rule reachable_step [OF r1]) simp
    then show ?thesis unfolding e2 fst_conv .
  qed
  have r3: "reachable
     \<lparr> app =
         \<lparr> stocks = [(0, \<lparr> label = ''Reliance Industries'', value' = ''RELIANCE.NS'' \<rparr>),
                     (1, \<lparr> label = ''Tata Steel'', value' = ''TATASTEEL.NS'' \<rparr>)],
           selectedStock = Some (0, \<lparr> label = ''Reliance Industries'', value' = ''RELIANCE.NS'' \<rparr>),
           customStock = [],
           stockData = Some
            \<lparr> symbol = ''RELIANCE.NS'', info = Some [(''currentPrice'', Number 12)],
              history = [\<lparr> date = ''2024-01-02'', open_price = 10, high = 12, low = 10,
                           close = 12, volume = 700 \<rparr>] \<rparr>,
           loading = False, searchTerm = [], period = ''1y'',
           showFinancials = True \<rparr>,
       next_address = 2, stocks_in_flight = 0, stock_in_flight = 0 \<rparr>"
  proof -
    have "reachable (fst (client_step (FinancialsClick) 
     \<lparr> app =
         \<lparr> stocks = [(0, \<lparr> label = ''Reliance Industries'', value' = ''RELIANCE.NS'' \<rparr>),
                     (1, \<lparr> label = ''Tata Steel'', value' = ''TATASTEEL.NS'' \<rparr>)],
           selectedStock = Some (0, \<lparr> label = ''Reliance Industries'', value' = ''RELIANCE.NS'' \<rparr>),
           customStock = [],
           stockData = Some
            \<lparr> symbol = ''RELIANCE.NS'', info = Some [(''currentPrice'', Number 12)],
              history = [\<lparr> date = ''2024-01-02'', open_price = 10, high = 12, low = 10,
                           close = 12, volume = 700 \<rparr>] \<rparr>,
           loading = False, searchTerm = [], period = ''1y'',
           showFinancials = False \<rparr>,
       next_address = 2, stocks_in_flight = 0, stock_in_flight = 0 \<rparr>))"
      by (rule reachable_step [OF r2]) simp
    then show ?thesis unfolding e3 fst_conv .
  qed
  have en: "enabled (PeriodClick ''5y'')
     \<lparr> app =
         \<lparr> stocks = [(0, \<lparr> label = ''Reliance Industries'', value' = ''RELIANCE.NS'' \<rparr>),
                     (1, \<lparr> label = ''Tata Steel'', value' = ''TATASTEEL.NS'' \<rparr>)],
           selectedStock = Some (0, \<lparr> label = ''Reliance Industries'', value' = ''RELIANCE.NS'' \<rparr>),
           customStock = [],
           stockData = Some
            \<lparr> symbol = ''RELIANCE.NS'', info = Some [(''currentPrice'', Number 12)],
              history = [\<lparr> date = ''2024-01-02'', open_price = 10, high = 12, low = 10,
                           close = 12, volume = 700 \<rparr>] \<rparr>,
           loading = False, searchTerm = [], period = ''1y'',
           showFinancials = True \<rparr>,
       next_address = 2, stocks_in_flight = 0, stock_in_flight = 0 \<rparr>"
    by (simp add: periods_def)
  have changed: "selectedStock (app (fst (client_step (PeriodClick ''5y'')
     \<lparr> app =
         \<lparr> stocks = [(0, \<lparr> label = ''Reliance Industries'', value' = ''RELIANCE.NS'' \<rparr>),
                     (1, \<lparr> label = ''Tata Steel'', value' = ''TATASTEEL.NS'' \<rparr>)],
           selectedStock = Some (0, \<lparr> label = ''Reliance Industries'', value' = ''RELIANCE.NS'' \<rparr>),
           customStock = [],
           stockData = Some
            \<lparr> symbol = ''RELIANCE.NS'', info = Some [(''currentPrice'', Number 12)],
              history = [\<lparr> date = ''2024-01-02'', open_price = 10, high = 12, low = 10,
                           close = 12, volume = 700 \<rparr>] \<rparr>,
           loading = False, searchTerm = [], period = ''1y'',
           showFinancials = True \<rparr>,
       next_address = 2, stocks_in_flight = 0, stock_in_flight = 0 \<rparr>))) \<noteq> selectedStock (app
     \<lparr> app =
         \<lparr> stocks = [(0, \<lparr> label = ''Reliance Industries'', value' = ''RELIANCE.NS'' \<rparr>),
                     (1, \<lparr> label = ''Tata Steel'', value' = ''TATASTEEL.NS'' \<rparr>)],
           selectedStock = Some (0, \<lparr> label = ''Reliance Industries'', value' = ''RELIANCE.NS'' \<rparr>),
           customStock = [],
           stockData = Some
            \<lparr> symbol = ''RELIANCE.NS'', info = Some [(''currentPrice'', Number 12)],
              history = [\<lparr> date = ''2024-01-02'', open_price = 10, high = 12, low = 10,
                           close = 12, volume = 700 \<rparr>] \<rparr>,
           loading = False, searchTerm = [], period = ''1y'',
           showFinancials = True \<rparr>,
       next_address = 2, stocks_in_flight = 0, stock_in_flight = 0 \<rparr>)
     \<or> period (app (fst (client_step (PeriodClick ''5y'')
     \<lparr> app =
         \<lparr> stocks = [(0, \<lparr> label = ''Reliance Industries'', value' = ''RELIANCE.NS'' \<rparr>),
                     (1, \<lparr> label = ''Tata Steel'', value' = ''TATASTEEL.NS'' \<rparr>)],
           selectedStock = Some (0, \<lparr> label = ''Reliance Industries'', value' = ''RELIANCE.NS'' \<rparr>),
           customStock = [],
           stockData = Some
            \<lparr> symbol = ''RELIANCE.NS'', info = Some [(''currentPrice'', Number 12)],
              history = [\<lparr> date = ''2024-01-02'', open_price = 10, high = 12, low = 10,
                           close = 12, volume = 700 \<rparr>] \<rparr>,
           loading = False, searchTerm = [], period = ''1y'',
           showFinancials = True \<rparr>,
       next_address = 2, stocks_in_flight = 0, stock_in_flight = 0 \<rparr>))) \<noteq> period (app
     \<lparr> app =
         \<lparr> stocks = [(0, \<lparr> label = ''Reliance Industries'', value' = ''RELIANCE.NS'' \<rparr>),
                     (1, \<lparr> label = ''Tata Steel'', value' = ''TATASTEEL.NS'' \<rparr>)],
           selectedStock = Some (0, \<lparr> label = ''Reliance Industries'', value' = ''RELIANCE.NS'' \<rparr>),
           customStock = [],
           stockData = Some
            \<lparr> symbol = ''RELIANCE.NS'', info = Some [(''currentPrice'', Number 12)],
              history = [\<lparr> date = ''2024-01-02'', open_price = 10, high = 12, low = 10,
                           close = 12, volume = 700 \<rparr>] \<rparr>,
           loading = False, searchTerm = [], period = ''1y'',
           showFinancials = True \<rparr>,
       next_address = 2, stocks_in_flight = 0, stock_in_flight = 0 \<rparr>)"
    unfolding e4 by simp
  from selection_change_fetches_and_hides [OF r3 en changed]
  have "showFinancials (app (fst (client_step (PeriodClick ''5y'')
     \<lparr> app =
         \<lparr> stocks = [(0, \<lparr> label = ''Reliance Industries'', value' = ''RELIANCE.NS'' \<rparr>),
                     (1, \<lparr> label = ''Tata Steel'', value' = ''TATASTEEL.NS'' \<rparr>)],
           selectedStock = Some (0, \<lparr> label = ''Reliance Industries'', value' = ''RELIANCE.NS'' \<rparr>),
           customStock = [],
           stockData = Some
            \<lparr> symbol = ''RELIANCE.NS'', info = Some [(''currentPrice'', Number 12)],
              history = [\<lparr> date = ''2024-01-02'', open_price = 10, high = 12, low = 10,
                           close = 12, volume = 700 \<rparr>] \<rparr>,
           loading = False, searchTerm = [], period = ''1y'',
           showFinancials = True \<rparr>,
       next_address = 2, stocks_in_flight = 0, stock_in_flight = 0 \<rparr>))) = False"
    by (rule conjunct1)
  with r3 en e4 show ?thesis by blast
qed

end
